theory Spec2Isabelle
  imports Complex_Main "HOL-Library.Sublist"
begin

section \<open>Data model\<close>

text \<open>
  The trading bot is Python. Prices, fees, balances and ratios are Python floats, that
  is IEEE 754 doubles. The model keeps them as reals and rounds the result of every
  arithmetic operation to the nearest double (\<open>fadd\<close>, \<open>fsub\<close>, \<open>fmul\<close>,
  \<open>fdiv\<close> below); a float division by zero is the exception it is in Python.
  Points in time are integers (seconds); \<open>timedelta(hours=h)\<close> is \<open>h * 3600\<close>.

  Every function of the source that can raise returns a pair: the outcome (an exception
  or a value) and the state it leaves behind, because what was written before an
  exception stays written. The exceptions are those derived from Python's
  \<open>Exception\<close> class, the ones an \<open>except Exception\<close> clause catches.

  The logger's lines keep the level and the text of the message; numbers and exception
  texts formatted into a message are left out. Console output (\<open>print\<close>) and the
  update sent to the socket are not part of the state.
\<close>

subsection \<open>Double arithmetic\<close>

text \<open>
  \<open>fl x\<close> is the double nearest to \<open>x\<close>, ties going to the even mantissa. A double
  has a mantissa of 53 bits; its exponent is at least -1022, below which the spacing of
  the doubles stays \<open>2 ^ -1074\<close>. Results beyond the largest double, which Python
  turns into infinities, are not modelled: \<open>fl\<close> rounds them like any other number.
  \<open>binary_exponent x\<close> is the \<open>e\<close> with \<open>2 ^ e \<le> x < 2 ^ (e + 1)\<close>, searched with
  enough steps for the range of the doubles.
\<close>

definition round_half_even :: "real \<Rightarrow> int" where
  "round_half_even y =
     (let f = \<lfloor>y\<rfloor>; d = y - of_int f
      in if d < 1 / 2 then f else if 1 / 2 < d then f + 1 else if even f then f else f + 1)"

fun exponent_up :: "nat \<Rightarrow> real \<Rightarrow> int" where
  "exponent_up 0 x = 0"
| "exponent_up (Suc n) x = (if x < 2 then 0 else exponent_up n (x / 2) + 1)"

fun exponent_down :: "nat \<Rightarrow> real \<Rightarrow> int" where
  "exponent_down 0 x = 0"
| "exponent_down (Suc n) x = (if 1 \<le> x then 0 else exponent_down n (x * 2) - 1)"

definition binary_exponent :: "real \<Rightarrow> int" where
  "binary_exponent x = (if 1 \<le> x then exponent_up 1024 x else exponent_down 1075 x)"

definition fl :: "real \<Rightarrow> real" where
  "fl x =
     (if x = 0 then 0
      else let e = max (binary_exponent \<bar>x\<bar>) (- 1022);
               q = 2 powi (e - 52)
           in of_int (round_half_even (x / q)) * q)"

text \<open>
  The operations of Python on floats: the exact result, rounded. An \<open>int\<close> operand is
  converted exactly. \<open>fdiv\<close> is used where the divisor is not 0; the callers raise
  ZeroDivisionError before.
\<close>

definition fadd :: "real \<Rightarrow> real \<Rightarrow> real" where
  "fadd x y = fl (x + y)"

definition fsub :: "real \<Rightarrow> real \<Rightarrow> real" where
  "fsub x y = fl (x - y)"

definition fmul :: "real \<Rightarrow> real \<Rightarrow> real" where
  "fmul x y = fl (x * y)"

definition fdiv :: "real \<Rightarrow> real \<Rightarrow> real" where
  "fdiv x y = fl (x / y)"

text \<open>
  \<open>sum(xs)\<close> on floats: the items are added from the left, starting at 0 (CPython from
  version 3.12 on compensates the rounding errors of the additions, which can move the
  last bit of the result).
\<close>

definition py_sum :: "real list \<Rightarrow> real" where
  "py_sum xs = foldl fadd 0 xs"

subsection \<open>Exceptions, records and the state\<close>

datatype exn = ZeroDivisionError | TypeError | AttributeError | OtherException string

datatype level = DEBUG | INFO | WARNING | ERROR

text \<open>
  The classes of \<open>binance_trade_bot/models\<close> are not among the source files; the
  records below hold the columns the source files read and write.
\<close>

record Coin =
  symbol :: string
  enabled :: bool

record Pair =
  pair_id :: nat
  from_coin :: Coin
  to_coin :: Coin
  ratio :: real
  pair_enabled :: bool

record ScoutHistory =
  sh_pair :: Pair
  target_ratio :: real
  current_coin_price :: "real option"
  other_coin_price :: real
  sh_datetime :: int

record CoinValue =
  cv_coin :: Coin
  usd_price :: "real option"
  cv_datetime :: int

text \<open>
  Modelled from the spec: the state tag of a Trade (\<open>models/trade.py\<close> is not among
  the source files). The spec names the states \<open>CREATED\<close>, \<open>ORDERED\<close> and
  \<open>COMPLETE\<close>.
\<close>

datatype TradeState = CREATED | ORDERED | COMPLETE

record Trade =
  alt_coin :: Coin
  crypto_coin :: Coin
  selling :: bool
  state :: TradeState
  alt_starting_balance :: "real option"
  alt_trade_amount :: "real option"
  crypto_starting_balance :: "real option"
  crypto_trade_amount :: "real option"

text \<open>What an order call of the exchange gateway returns on success.\<close>

record order =
  price :: real

text \<open>
  The value bound to \<open>result\<close> in \<open>transaction_through_bridge\<close>: the order object
  that \<open>buy_alt\<close> returned, or the dict literal \<open>{"price": 1}\<close>.
\<close>

datatype py_result = OrderObj order | DictObj "(string \<times> real) list"

text \<open>The order calls issued to the exchange, in the order they were made.\<close>

datatype exchange_call = SellAlt string string | BuyAlt string string

record config =
  BRIDGE :: Coin
  SCOUT_MULTIPLIER :: real
  STOP_LOSS_ENABLED :: bool
  STOP_LOSS_PERCENTAGE :: real
  TRAILING_STOP_HOURS :: int

text \<open>
  The exchange gateway (\<open>self.manager\<close>) is an external collaborator: its answers
  are parameters. Every call may raise.
\<close>

record manager =
  get_ticker_price :: "string \<Rightarrow> exn + real option"
  get_fee :: "Coin \<Rightarrow> Coin \<Rightarrow> bool \<Rightarrow> exn + real"
  get_min_notional :: "string \<Rightarrow> string \<Rightarrow> exn + real"
  get_currency_balance :: "string \<Rightarrow> exn + real"
  sell_alt :: "Coin \<Rightarrow> Coin \<Rightarrow> exn + order option"
  buy_alt :: "Coin \<Rightarrow> Coin \<Rightarrow> exn + order option"

text \<open>
  The state a scouting cycle reads and writes: the tables of the database, the clock,
  the logger's lines and the order calls issued.
  \<open>current_coin_rows\<close> holds the rows of the \<open>CurrentCoin\<close> table, oldest first.
\<close>

record state =
  coins :: "Coin list"
  pairs :: "Pair list"
  current_coin_rows :: "Coin list"
  scout_history :: "ScoutHistory list"
  coin_values :: "CoinValue list"
  now :: int
  log :: "(level \<times> string) list"
  exchange_calls :: "exchange_call list"

definition logger :: "level \<Rightarrow> string \<Rightarrow> state \<Rightarrow> state" where
  "logger lv m s = s\<lparr>log := log s @ [(lv, m)]\<rparr>"

definition issue :: "exchange_call \<Rightarrow> state \<Rightarrow> state" where
  "issue c s = s\<lparr>exchange_calls := exchange_calls s @ [c]\<rparr>"

text \<open>\<open>coin + self.config.BRIDGE\<close>: the ticker symbol of a coin against the bridge.\<close>

definition ticker :: "Coin \<Rightarrow> Coin \<Rightarrow> string" where
  "ticker c b = symbol c @ symbol b"

section \<open>database.py\<close>

definition get_coins :: "state \<Rightarrow> bool \<Rightarrow> Coin list" where
  "get_coins s only_enabled = (if only_enabled then filter enabled (coins s) else coins s)"

definition set_current_coin :: "Coin \<Rightarrow> state \<Rightarrow> state" where
  "set_current_coin c s = s\<lparr>current_coin_rows := current_coin_rows s @ [c]\<rparr>"

definition get_current_coin :: "state \<Rightarrow> Coin option" where
  "get_current_coin s =
     (if current_coin_rows s = [] then None else Some (last (current_coin_rows s)))"

definition get_pairs_from :: "state \<Rightarrow> Coin \<Rightarrow> Pair list" where
  "get_pairs_from s c =
     filter (\<lambda>p. pair_enabled p) (filter (\<lambda>p. symbol (from_coin p) = symbol c) (pairs s))"

definition log_scout :: "Pair \<Rightarrow> real \<Rightarrow> real \<Rightarrow> real \<Rightarrow> state \<Rightarrow> state" where
  "log_scout p tr cp ocp s =
     s\<lparr>scout_history := scout_history s @
        [\<lparr>sh_pair = p, target_ratio = tr, current_coin_price = Some cp,
          other_coin_price = ocp, sh_datetime = now s\<rparr>]\<rparr>"

text \<open>
  \<open>time_diff\<close> of both high-price queries: \<open>hours\<close> hours before \<open>current_time\<close>,
  or before the clock when no time is given.
\<close>

definition time_diff :: "state \<Rightarrow> int \<Rightarrow> int option \<Rightarrow> int" where
  "time_diff s hours current_time =
     (case current_time of Some t \<Rightarrow> t - hours * 3600 | None \<Rightarrow> now s - hours * 3600)"

text \<open>
  \<open>get_coin_recent_high_price\<close>: the highest \<open>current_coin_price\<close> of the scout
  entries, not older than \<open>time_diff\<close>, of the pairs that start at the coin. The inner
  loop keeps a price that is truthy and above the running maximum, which starts at 0.
\<close>

definition scout_max :: "real \<Rightarrow> ScoutHistory \<Rightarrow> real" where
  "scout_max max_price r =
     (case current_coin_price r of
        None \<Rightarrow> max_price
      | Some v \<Rightarrow> if v \<noteq> 0 \<and> v > max_price then v else max_price)"

definition get_coin_recent_high_price :: "state \<Rightarrow> Coin \<Rightarrow> int \<Rightarrow> int option \<Rightarrow> real option" where
  "get_coin_recent_high_price s c hours current_time =
     (let td = time_diff s hours current_time;
          pairs_from = filter (\<lambda>p. symbol (from_coin p) = symbol c) (pairs s)
      in if pairs_from = [] then None
         else
           let max_price =
                 foldl (\<lambda>m p. foldl scout_max m
                                 (filter (\<lambda>r. pair_id (sh_pair r) = pair_id p \<and> td \<le> sh_datetime r)
                                    (scout_history s)))
                   0 pairs_from
           in if max_price > 0 then Some max_price else None)"

text \<open>\<open>max(prices)\<close> of a list that is not empty.\<close>

definition max_of :: "real list \<Rightarrow> real" where
  "max_of xs = foldl max (hd xs) (tl xs)"

definition get_coin_high_price_from_values ::
  "state \<Rightarrow> Coin \<Rightarrow> int \<Rightarrow> int option \<Rightarrow> real option" where
  "get_coin_high_price_from_values s c hours current_time =
     (let td = time_diff s hours current_time;
          cvs = filter (\<lambda>cv. symbol (cv_coin cv) = symbol c \<and> td \<le> cv_datetime cv) (coin_values s)
      in if cvs = [] then None
         else
           let prices = List.map_filter usd_price cvs
           in if prices = [] then None else Some (max_of prices))"

subsection \<open>\<open>TradeLog\<close>\<close>

text \<open>
  Modelled from the spec: the constructor of \<open>Trade\<close> (\<open>models/trade.py\<close> is not among
  the source files). A trade starts in state \<open>CREATED\<close> with no amount set.
\<close>

definition new_Trade :: "Coin \<Rightarrow> Coin \<Rightarrow> bool \<Rightarrow> Trade" where
  "new_Trade from_c to_c sell =
     \<lparr>alt_coin = from_c, crypto_coin = to_c, selling = sell, state = CREATED,
      alt_starting_balance = None, alt_trade_amount = None,
      crypto_starting_balance = None, crypto_trade_amount = None\<rparr>"

text \<open>\<open>TradeLog.__init__\<close>, \<open>set_ordered\<close> and \<open>set_complete\<close>, on the row they keep.\<close>

definition TradeLog :: "Coin \<Rightarrow> Coin \<Rightarrow> bool \<Rightarrow> Trade" where
  "TradeLog from_c to_c sell = new_Trade from_c to_c sell"

definition set_ordered :: "real \<Rightarrow> real \<Rightarrow> real \<Rightarrow> Trade \<Rightarrow> Trade" where
  "set_ordered alt_start crypto_start alt_amount trade =
     trade\<lparr>alt_starting_balance := Some alt_start,
           alt_trade_amount := Some alt_amount,
           crypto_starting_balance := Some crypto_start,
           state := ORDERED\<rparr>"

definition set_complete :: "real \<Rightarrow> Trade \<Rightarrow> Trade" where
  "set_complete crypto_amount trade =
     trade\<lparr>crypto_trade_amount := Some crypto_amount, state := COMPLETE\<rparr>"

text \<open>
  Modelled from the spec: the order execution of the gateway, which calls the trade log
  (\<open>binance_api_manager.py\<close> is not among the source files). The trade is created
  before any exchange call; it is marked ordered once the order is placed, with the
  starting balances and the traded amount; it is marked complete once the order is
  filled, with the acquired amount. A leg that fails leaves the trade at the state it
  reached. The result lists the rows as they were observed, oldest first.
\<close>

definition trade_lifecycle ::
  "Coin \<Rightarrow> Coin \<Rightarrow> bool \<Rightarrow> (real \<times> real \<times> real) option \<Rightarrow> real option \<Rightarrow> Trade list" where
  "trade_lifecycle from_c to_c sell placed filled =
     (let t0 = TradeLog from_c to_c sell in
      case placed of
        None \<Rightarrow> [t0]
      | Some (alt_start, crypto_start, alt_amount) \<Rightarrow>
          (let t1 = set_ordered alt_start crypto_start alt_amount t0 in
           case filled of
             None \<Rightarrow> [t0, t1]
           | Some crypto_amount \<Rightarrow> [t0, t1, set_complete crypto_amount t1]))"

section \<open>The ratio engine of strategies/test1_strategy.py\<close>

subsection \<open>\<open>_get_ratios\<close>\<close>

text \<open>Lines 110 to 113: the multiplier \<open>cmt\<close>, fixed before the loop.\<close>

definition cmt :: "config \<Rightarrow> Coin \<Rightarrow> real" where
  "cmt cfg c =
     (if symbol c = ''USDT'' then fmul (SCOUT_MULTIPLIER cfg) (fl 1.4) else SCOUT_MULTIPLIER cfg)"

text \<open>
  Lines 116 to 121: the price of the target coin and its exit fee. A target of symbol
  \<open>USDT\<close> has price 1 and fee 0, and the gateway is not asked.
\<close>

definition optional_coin :: "config \<Rightarrow> manager \<Rightarrow> Pair \<Rightarrow> exn + (real option \<times> real)" where
  "optional_coin cfg mgr p =
     (if symbol (to_coin p) = ''USDT'' then Inr (Some 1, 0)
      else case get_ticker_price mgr (ticker (to_coin p) (BRIDGE cfg)) of
             Inl e \<Rightarrow> Inl e
           | Inr q \<Rightarrow>
               (case get_fee mgr (to_coin p) (BRIDGE cfg) False of
                  Inl e \<Rightarrow> Inl e
                | Inr fee_out \<Rightarrow> Inr (q, fee_out)))"

text \<open>Lines 135 to 139: the multiplier \<open>mt\<close> of one pair.\<close>

definition mt_of :: "config \<Rightarrow> Coin \<Rightarrow> Pair \<Rightarrow> real \<Rightarrow> exn + real" where
  "mt_of cfg c p transaction_fee =
     (if symbol (to_coin p) = ''USDT''
      then (if transaction_fee = 0 then Inl ZeroDivisionError
            else Inr (fdiv (- fl 0.001) transaction_fee))
      else Inr (cmt cfg c))"

text \<open>
  One pass of the loop body, lines 116 to 141, on the dictionary \<open>rd\<close> built so far.
  The scout entry is written before the divisions, so it stays when they raise.
\<close>

definition get_ratios_pair ::
  "config \<Rightarrow> manager \<Rightarrow> Coin \<Rightarrow> real \<Rightarrow> Pair \<Rightarrow> (Pair \<rightharpoonup> real) \<Rightarrow> state
     \<Rightarrow> (exn + (Pair \<rightharpoonup> real)) \<times> state" where
  "get_ratios_pair cfg mgr c coin_price p rd s =
     (case optional_coin cfg mgr p of
        Inl e \<Rightarrow> (Inl e, s)
      | Inr (None, fee_out) \<Rightarrow>
          (Inr rd,
           logger INFO (''Skipping scouting... optional coin '' @ ticker (to_coin p) (BRIDGE cfg)
                        @ '' not found'') s)
      | Inr (Some optional_coin_price, fee_out) \<Rightarrow>
          (let s1 = log_scout p (ratio p) coin_price optional_coin_price s in
           if optional_coin_price = 0 then (Inl ZeroDivisionError, s1)
           else
             let coin_opt_coin_ratio = fdiv coin_price optional_coin_price in
             case get_fee mgr (from_coin p) (BRIDGE cfg) True of
               Inl e \<Rightarrow> (Inl e, s1)
             | Inr fee_in \<Rightarrow>
                 (let transaction_fee = fadd fee_in fee_out in
                  case mt_of cfg c p transaction_fee of
                    Inl e \<Rightarrow> (Inl e, s1)
                  | Inr mt \<Rightarrow>
                      (Inr (rd(p \<mapsto>
                              fsub (fmul coin_opt_coin_ratio (fsub 1 (fmul transaction_fee mt)))
                                (ratio p))),
                       s1))))"

fun get_ratios_loop ::
  "config \<Rightarrow> manager \<Rightarrow> Coin \<Rightarrow> real \<Rightarrow> Pair list \<Rightarrow> (Pair \<rightharpoonup> real) \<Rightarrow> state
     \<Rightarrow> (exn + (Pair \<rightharpoonup> real)) \<times> state" where
  "get_ratios_loop cfg mgr c coin_price [] rd s = (Inr rd, s)"
| "get_ratios_loop cfg mgr c coin_price (p # ps) rd s =
     (case get_ratios_pair cfg mgr c coin_price p rd s of
        (Inl e, s1) \<Rightarrow> (Inl e, s1)
      | (Inr rd1, s1) \<Rightarrow> get_ratios_loop cfg mgr c coin_price ps rd1 s1)"

definition get_ratios ::
  "config \<Rightarrow> manager \<Rightarrow> Coin \<Rightarrow> real \<Rightarrow> state \<Rightarrow> (exn + (Pair \<rightharpoonup> real)) \<times> state" where
  "get_ratios cfg mgr c coin_price s =
     get_ratios_loop cfg mgr c coin_price (get_pairs_from s c) Map.empty s"

subsection \<open>\<open>transaction_through_bridge\<close>\<close>

text \<open>
  Methods of the base class \<open>AutoTrader\<close> (\<open>auto_trader.py\<close> is not among the source
  files) that the strategies call: parameters. \<open>base_get_ratios\<close> is the
  \<open>_get_ratios\<close> that \<open>custom1_strategy.py\<close> inherits; it returns the values of its
  ratio dictionary, or raises, together with the scout entries and the logger's lines
  it wrote.
\<close>

record auto_trader =
  update_trade_threshold :: "Coin \<Rightarrow> real \<Rightarrow> state \<Rightarrow> (exn + unit) \<times> state"
  jump_to_best_coin :: "Coin \<Rightarrow> real \<Rightarrow> state \<Rightarrow> (exn + unit) \<times> state"
  base_get_ratios ::
    "Coin \<Rightarrow> real \<Rightarrow> (exn + real list) \<times> ScoutHistory list \<times> (level \<times> string) list"

text \<open>
  Lines 48 and 49, the condition of the sell leg:
  \<open>pair.from_coin.symbol != 'USDT' and balance and balance * from_coin_price > min_notional\<close>.
  \<open>and\<close> stops at the first false operand; a balance of 0 is false; the product with a
  missing price is a TypeError, raised before the gateway is asked for the minimum.
\<close>

definition can_sell_condition ::
  "config \<Rightarrow> manager \<Rightarrow> Pair \<Rightarrow> real \<Rightarrow> real option \<Rightarrow> exn + bool" where
  "can_sell_condition cfg mgr p balance from_coin_price =
     (if symbol (from_coin p) = ''USDT'' then Inr False
      else if balance = 0 then Inr False
      else case from_coin_price of
             None \<Rightarrow> Inl TypeError
           | Some fp \<Rightarrow>
               (case get_min_notional mgr (symbol (from_coin p)) (symbol (BRIDGE cfg)) of
                  Inl e \<Rightarrow> Inl e
                | Inr m \<Rightarrow> Inr (fmul balance fp > m)))"

text \<open>\<open>result.price\<close>: an order object has the attribute, a dict has not.\<close>

fun price_attribute :: "py_result \<Rightarrow> exn + real" where
  "price_attribute (OrderObj ord) = Inr (price ord)"
| "price_attribute (DictObj kvs) = Inl AttributeError"

text \<open>Lines 63 to 69: what follows the buy leg.\<close>

definition after_buy ::
  "auto_trader \<Rightarrow> Pair \<Rightarrow> py_result option \<Rightarrow> state \<Rightarrow> (exn + py_result option) \<times> state" where
  "after_buy trd p result s =
     (case result of
        None \<Rightarrow> (Inr None, logger INFO ''Couldn't buy, going back to scouting mode...'' s)
      | Some res \<Rightarrow>
          (let s1 = set_current_coin (to_coin p) s in
           case price_attribute res of
             Inl e \<Rightarrow> (Inl e, s1)
           | Inr pr \<Rightarrow>
               (case update_trade_threshold trd (to_coin p) pr s1 of
                  (Inl e, s2) \<Rightarrow> (Inl e, s2)
                | (Inr u, s2) \<Rightarrow> (Inr (Some res), s2))))"

text \<open>Lines 58 to 61: the buy leg, skipped for a target of symbol \<open>USDT\<close>.\<close>

definition buy_leg ::
  "config \<Rightarrow> manager \<Rightarrow> auto_trader \<Rightarrow> Pair \<Rightarrow> state \<Rightarrow> (exn + py_result option) \<times> state" where
  "buy_leg cfg mgr trd p s =
     (if symbol (to_coin p) \<noteq> ''USDT''
      then (let s1 = issue (BuyAlt (symbol (to_coin p)) (symbol (BRIDGE cfg))) s in
            case buy_alt mgr (to_coin p) (BRIDGE cfg) of
              Inl e \<Rightarrow> (Inl e, s1)
            | Inr r \<Rightarrow> after_buy trd p (map_option OrderObj r) s1)
      else after_buy trd p (Some (DictObj [(''price'', 1)])) s)"

definition transaction_through_bridge ::
  "config \<Rightarrow> manager \<Rightarrow> auto_trader \<Rightarrow> Pair \<Rightarrow> state \<Rightarrow> (exn + py_result option) \<times> state" where
  "transaction_through_bridge cfg mgr trd p s =
     (case get_currency_balance mgr (symbol (from_coin p)) of
        Inl e \<Rightarrow> (Inl e, s)
      | Inr balance \<Rightarrow>
          (case get_ticker_price mgr (ticker (from_coin p) (BRIDGE cfg)) of
             Inl e \<Rightarrow> (Inl e, s)
           | Inr from_coin_price \<Rightarrow>
               (case can_sell_condition cfg mgr p balance from_coin_price of
                  Inl e \<Rightarrow> (Inl e, s)
                | Inr False \<Rightarrow> buy_leg cfg mgr trd p (logger INFO ''Skipping sell'' s)
                | Inr True \<Rightarrow>
                    (let s1 = issue (SellAlt (symbol (from_coin p)) (symbol (BRIDGE cfg))) s in
                     case sell_alt mgr (from_coin p) (BRIDGE cfg) of
                       Inl e \<Rightarrow> (Inl e, s1)
                     | Inr None \<Rightarrow>
                         (Inr None,
                          logger INFO ''Couldn't sell, going back to scouting mode...'' s1)
                     | Inr (Some sold) \<Rightarrow> buy_leg cfg mgr trd p s1))))"

section \<open>The stop-loss strategy of strategies/custom1_strategy.py\<close>

subsection \<open>\<open>_scout_from_usdt\<close>\<close>

text \<open>
  Lines 77 to 90, the body of the inner \<open>try\<close>: the outcome is the new best potential
  when the coin's average of positive ratios beats the best so far, and nothing
  otherwise.
\<close>

definition evaluate_coin ::
  "config \<Rightarrow> manager \<Rightarrow> auto_trader \<Rightarrow> Coin \<Rightarrow> real \<Rightarrow> state \<Rightarrow> (exn + real option) \<times> state" where
  "evaluate_coin cfg mgr trd c best_potential s =
     (case get_ticker_price mgr (ticker c (BRIDGE cfg)) of
        Inl e \<Rightarrow> (Inl e, s)
      | Inr None \<Rightarrow> (Inr None, s)
      | Inr (Some coin_price) \<Rightarrow>
          (case base_get_ratios trd c coin_price of
             (res, rows, lines) \<Rightarrow>
               (let s1 = s\<lparr>scout_history := scout_history s @ rows, log := log s @ lines\<rparr> in
                case res of
                  Inl e \<Rightarrow> (Inl e, s1)
                | Inr ratios \<Rightarrow>
                    (let positive_ratios = filter (\<lambda>r. r > 0) ratios in
                     if positive_ratios \<noteq> []
                     then (let avg_potential =
                                 fdiv (py_sum positive_ratios) (real (length positive_ratios))
                           in if avg_potential > best_potential
                              then (Inr (Some avg_potential), s1)
                              else (Inr None, s1))
                     else (Inr None, s1)))))"

text \<open>Lines 75 to 94: the loop over the target coins; an exception skips the coin.\<close>

fun evaluate_coins ::
  "config \<Rightarrow> manager \<Rightarrow> auto_trader \<Rightarrow> Coin list \<Rightarrow> Coin option \<Rightarrow> real \<Rightarrow> state
     \<Rightarrow> (Coin option \<times> real) \<times> state" where
  "evaluate_coins cfg mgr trd [] best_coin best_potential s = ((best_coin, best_potential), s)"
| "evaluate_coins cfg mgr trd (c # cs) best_coin best_potential s =
     (case evaluate_coin cfg mgr trd c best_potential s of
        (Inl e, s1) \<Rightarrow>
          evaluate_coins cfg mgr trd cs best_coin best_potential
            (logger DEBUG (''Error evaluating coin '' @ symbol c) s1)
      | (Inr None, s1) \<Rightarrow> evaluate_coins cfg mgr trd cs best_coin best_potential s1
      | (Inr (Some avg_potential), s1) \<Rightarrow>
          evaluate_coins cfg mgr trd cs (Some c) avg_potential s1)"

text \<open>Lines 62 to 108: the body of the outer \<open>try\<close>.\<close>

definition scout_from_usdt_body ::
  "config \<Rightarrow> manager \<Rightarrow> auto_trader \<Rightarrow> state \<Rightarrow> (exn + unit) \<times> state" where
  "scout_from_usdt_body cfg mgr trd s =
     (let all_coins = get_coins s True;
          target_coins = filter (\<lambda>c. symbol c \<noteq> ''USDT'') all_coins
      in if target_coins = []
         then (Inr (), logger WARNING ''No target coins available for USDT trading'' s)
         else
           (case evaluate_coins cfg mgr trd target_coins None 0 s of
              ((None, best_potential), s1) \<Rightarrow> (Inr (), s1)
            | ((Some best_coin, best_potential), s1) \<Rightarrow>
                if best_potential > 0
                then (let s2 = logger INFO (''USDT -> '' @ symbol best_coin) s1;
                          s3 = issue (BuyAlt (symbol best_coin) (symbol (BRIDGE cfg))) s2
                      in case buy_alt mgr best_coin (BRIDGE cfg) of
                           Inl e \<Rightarrow> (Inl e, s3)
                         | Inr None \<Rightarrow>
                             (Inr (),
                              logger WARNING (''Failed to buy '' @ symbol best_coin @ '' from USDT'') s3)
                         | Inr (Some bought) \<Rightarrow>
                             (Inr (),
                              logger INFO (''Successfully bought '' @ symbol best_coin @ '' from USDT'')
                                (set_current_coin best_coin s3)))
                else (Inr (), s1)))"

text \<open>Lines 60 and 110 to 111: the outer \<open>try\<close> with its handler.\<close>

definition scout_from_usdt ::
  "config \<Rightarrow> manager \<Rightarrow> auto_trader \<Rightarrow> state \<Rightarrow> (exn + unit) \<times> state" where
  "scout_from_usdt cfg mgr trd s =
     (case scout_from_usdt_body cfg mgr trd s of
        (Inl e, s1) \<Rightarrow> (Inr (), logger ERROR ''Error in USDT scouting'' s1)
      | (Inr u, s1) \<Rightarrow> (Inr u, s1))"

subsection \<open>\<open>_get_recent_high_price\<close>\<close>

text \<open>The truth value Python gives an optional float: \<open>None\<close> and 0 are false.\<close>

fun truthy :: "real option \<Rightarrow> bool" where
  "truthy None = False"
| "truthy (Some v) = (v \<noteq> 0)"

text \<open>
  Lines 169 to 191. The first query is given \<open>trailing_stop_hours // 24 + 1\<close> as its
  \<open>hours\<close>, the second \<open>trailing_stop_hours\<close>. With no history the live price is
  fetched; an exception of the gateway is logged and the answer is \<open>None\<close>.
\<close>

definition get_recent_high_price ::
  "config \<Rightarrow> manager \<Rightarrow> Coin \<Rightarrow> int option \<Rightarrow> state \<Rightarrow> (exn + real option) \<times> state" where
  "get_recent_high_price cfg mgr c current_time s =
     (let high_price_from_values =
            get_coin_high_price_from_values s c (TRAILING_STOP_HOURS cfg div 24 + 1) current_time;
          high_price_from_scout =
            get_coin_recent_high_price s c (TRAILING_STOP_HOURS cfg) current_time
      in if truthy high_price_from_values \<and> truthy high_price_from_scout
         then (Inr (Some (max (the high_price_from_values) (the high_price_from_scout))), s)
         else if truthy high_price_from_values then (Inr high_price_from_values, s)
         else if truthy high_price_from_scout then (Inr high_price_from_scout, s)
         else (case get_ticker_price mgr (ticker c (BRIDGE cfg)) of
                 Inl e \<Rightarrow> (Inr None, logger ERROR ''Error getting recent high price'' s)
               | Inr current_price \<Rightarrow>
                   (Inr current_price,
                    logger WARNING (''No high price history for '' @ symbol c
                                    @ '', using current price as reference'') s)))"

subsection \<open>\<open>_execute_stop_loss\<close>\<close>

text \<open>Lines 246 to 266: what follows a sell that succeeded.\<close>

definition convert_to_usdt :: "config \<Rightarrow> manager \<Rightarrow> state \<Rightarrow> (exn + bool) \<times> state" where
  "convert_to_usdt cfg mgr s =
     (if symbol (BRIDGE cfg) \<noteq> ''USDT''
      then (case find (\<lambda>c. symbol c = ''USDT'') (get_coins s True) of
              None \<Rightarrow> (Inr True, logger WARNING ''USDT coin not found, staying in bridge coin'' s)
            | Some usdt_coin \<Rightarrow>
                (let s1 = issue (BuyAlt (symbol usdt_coin) (symbol (BRIDGE cfg))) s in
                 case buy_alt mgr usdt_coin (BRIDGE cfg) of
                   Inl e \<Rightarrow> (Inl e, s1)
                 | Inr None \<Rightarrow>
                     (Inr True, logger ERROR ''Failed to convert to USDT after stop loss'' s1)
                 | Inr (Some bought) \<Rightarrow>
                     (Inr True,
                      logger INFO ''Stop loss completed: converted to USDT''
                        (set_current_coin usdt_coin s1))))
      else (Inr True,
            logger INFO ''Stop loss completed: converted to USDT''
              (set_current_coin (BRIDGE cfg) s)))"

text \<open>
  Lines 222 to 268, the body of the \<open>try\<close>. The product of the balance with a missing
  price is a TypeError, after both gateway calls.
\<close>

definition execute_stop_loss_body ::
  "config \<Rightarrow> manager \<Rightarrow> Coin \<Rightarrow> state \<Rightarrow> (exn + bool) \<times> state" where
  "execute_stop_loss_body cfg mgr c s =
     (case get_currency_balance mgr (symbol c) of
        Inl e \<Rightarrow> (Inl e, s)
      | Inr balance \<Rightarrow>
          if balance \<le> 0 then (Inr False, logger INFO ''No balance to sell for stop loss'' s)
          else
            (case get_ticker_price mgr (ticker c (BRIDGE cfg)) of
               Inl e \<Rightarrow> (Inl e, s)
             | Inr current_price \<Rightarrow>
                 (case get_min_notional mgr (symbol c) (symbol (BRIDGE cfg)) of
                    Inl e \<Rightarrow> (Inl e, s)
                  | Inr min_notional \<Rightarrow>
                      (case current_price of
                         None \<Rightarrow> (Inl TypeError, s)
                       | Some cp \<Rightarrow>
                           if fmul balance cp < min_notional
                           then (Inr False, logger INFO ''Balance too small for stop loss trade'' s)
                           else
                             (let s1 = logger INFO (''Executing stop loss: selling '' @ symbol c) s;
                                  s2 = issue (SellAlt (symbol c) (symbol (BRIDGE cfg))) s1
                              in case sell_alt mgr c (BRIDGE cfg) of
                                   Inl e \<Rightarrow> (Inl e, s2)
                                 | Inr None \<Rightarrow>
                                     (Inr False,
                                      logger ERROR ''Failed to sell coin for stop loss'' s2)
                                 | Inr (Some sold) \<Rightarrow> convert_to_usdt cfg mgr s2)))))"

definition execute_stop_loss ::
  "config \<Rightarrow> manager \<Rightarrow> Coin \<Rightarrow> state \<Rightarrow> (exn + bool) \<times> state" where
  "execute_stop_loss cfg mgr c s =
     (case execute_stop_loss_body cfg mgr c s of
        (Inl e, s1) \<Rightarrow> (Inr False, logger ERROR ''Error executing stop loss'' s1)
      | (Inr b, s1) \<Rightarrow> (Inr b, s1))"

subsection \<open>\<open>_check_trailing_stop_loss\<close>\<close>

text \<open>
  Lines 130 to 163. The only exception the body can raise is the division by a
  recent high of 0; the handler logs it and answers \<open>False\<close>.
\<close>

definition check_trailing_stop_loss ::
  "config \<Rightarrow> manager \<Rightarrow> Coin \<Rightarrow> real \<Rightarrow> int option \<Rightarrow> state \<Rightarrow> (exn + bool) \<times> state" where
  "check_trailing_stop_loss cfg mgr c current_price current_time s =
     (if symbol c = ''USDT'' then (Inr False, s)
      else case get_recent_high_price cfg mgr c current_time s of
             (Inl e, s1) \<Rightarrow> (Inr False, logger ERROR ''Error checking trailing stop loss'' s1)
           | (Inr None, s1) \<Rightarrow>
               (Inr False, logger DEBUG (''No recent high price data for '' @ symbol c) s1)
           | (Inr (Some recent_high_price), s1) \<Rightarrow>
               if recent_high_price = 0
               then (Inr False, logger ERROR ''Error checking trailing stop loss'' s1)
               else
                 (let price_drop_percentage =
                        fmul (fdiv (fsub recent_high_price current_price) recent_high_price) 100
                  in if price_drop_percentage \<ge> STOP_LOSS_PERCENTAGE cfg
                     then execute_stop_loss cfg mgr c s1
                     else (Inr False, s1)))"

subsection \<open>\<open>scout\<close>\<close>

text \<open>
  Lines 23 to 54. With no current coin, \<open>current_coin + self.config.BRIDGE\<close> in the
  console line is a TypeError.
\<close>

definition scout ::
  "config \<Rightarrow> manager \<Rightarrow> auto_trader \<Rightarrow> int option \<Rightarrow> state \<Rightarrow> (exn + unit) \<times> state" where
  "scout cfg mgr trd current_time s =
     (case get_current_coin s of
        None \<Rightarrow> (Inl TypeError, s)
      | Some current_coin \<Rightarrow>
          if symbol current_coin = ''USDT'' then scout_from_usdt cfg mgr trd s
          else
            (case get_ticker_price mgr (ticker current_coin (BRIDGE cfg)) of
               Inl e \<Rightarrow> (Inl e, s)
             | Inr None \<Rightarrow>
                 (Inr (),
                  logger INFO (''Skipping scouting... current coin ''
                               @ ticker current_coin (BRIDGE cfg) @ '' not found'') s)
             | Inr (Some coin_price) \<Rightarrow>
                 if STOP_LOSS_ENABLED cfg
                 then (case check_trailing_stop_loss cfg mgr current_coin coin_price
                              current_time s of
                         (Inl e, s1) \<Rightarrow> (Inl e, s1)
                       | (Inr True, s1) \<Rightarrow> (Inr (), s1)
                       | (Inr False, s1) \<Rightarrow>
                           jump_to_best_coin trd current_coin coin_price s1)
                 else jump_to_best_coin trd current_coin coin_price s))"

section \<open>Example inputs\<close>

text \<open>
  The inputs of the spec's scenarios: the bridge is USDT, ETH trades at 2000 and BTC at
  40000 against it, every fee is 0.001, and the sensitivity is 5.
\<close>

definition USDT :: Coin where "USDT = \<lparr>symbol = ''USDT'', enabled = True\<rparr>"
definition ETH :: Coin where "ETH = \<lparr>symbol = ''ETH'', enabled = True\<rparr>"
definition BTC :: Coin where "BTC = \<lparr>symbol = ''BTC'', enabled = True\<rparr>"

text \<open>The doubles that Python reads from the literals 0.001, 0.05 and 0.00002.\<close>

definition fee_rate :: real where "fee_rate = fl 0.001"
definition stored_ratio :: real where "stored_ratio = fl 0.05"
definition small_ratio :: real where "small_ratio = fl 0.00002"

definition ex_config :: config where
  "ex_config = \<lparr>BRIDGE = USDT, SCOUT_MULTIPLIER = 5, STOP_LOSS_ENABLED = True,
                 STOP_LOSS_PERCENTAGE = 15, TRAILING_STOP_HOURS = 24\<rparr>"

definition ex_manager :: manager where
  "ex_manager =
     \<lparr>get_ticker_price =
        (\<lambda>t. if t = ''ETHUSDT'' then Inr (Some 2000)
              else if t = ''BTCUSDT'' then Inr (Some 40000) else Inr None),
      get_fee = (\<lambda>c b is_buy. Inr fee_rate),
      get_min_notional = (\<lambda>c b. Inr 10),
      get_currency_balance = (\<lambda>c. if c = ''ETH'' then Inr 1 else Inr 0),
      sell_alt = (\<lambda>c b. Inr (Some \<lparr>price = 2000\<rparr>)),
      buy_alt = (\<lambda>c b. Inr (Some \<lparr>price = 40000\<rparr>))\<rparr>"

definition eth_btc :: Pair where
  "eth_btc = \<lparr>pair_id = 1, from_coin = ETH, to_coin = BTC, ratio = stored_ratio, pair_enabled = True\<rparr>"

definition eth_usdt :: Pair where
  "eth_usdt = \<lparr>pair_id = 2, from_coin = ETH, to_coin = USDT, ratio = 2000, pair_enabled = True\<rparr>"

definition usdt_btc :: Pair where
  "usdt_btc =
     \<lparr>pair_id = 3, from_coin = USDT, to_coin = BTC, ratio = small_ratio, pair_enabled = True\<rparr>"

definition ex_state :: state where
  "ex_state = \<lparr>coins = [ETH, BTC, USDT], pairs = [eth_btc, eth_usdt, usdt_btc],
                current_coin_rows = [ETH],
                scout_history = [], coin_values = [], now = 1000000, log = [],
                exchange_calls = []\<rparr>"

lemmas ex_defs = USDT_def ETH_def BTC_def ex_config_def ex_manager_def eth_btc_def eth_usdt_def
  usdt_btc_def
  ex_state_def

text \<open>A gateway that reports a fee of 0.\<close>

definition zero_fee_manager :: manager where
  "zero_fee_manager = ex_manager\<lparr>get_fee := (\<lambda>c b is_buy. Inr 0)\<rparr>"

text \<open>
  A base class whose methods do nothing, and gateways whose sell or buy order fails.
\<close>

definition ex_trader :: auto_trader where
  "ex_trader =
     \<lparr>update_trade_threshold = (\<lambda>c p s. (Inr (), s)),
      jump_to_best_coin = (\<lambda>c p s. (Inr (), s)),
      base_get_ratios = (\<lambda>c p. (Inr [], [], []))\<rparr>"

definition no_sell_manager :: manager where
  "no_sell_manager = ex_manager\<lparr>sell_alt := (\<lambda>c b. Inr None)\<rparr>"

definition no_buy_manager :: manager where
  "no_buy_manager = ex_manager\<lparr>buy_alt := (\<lambda>c b. Inr None)\<rparr>"

text \<open>
  The stop-loss scenarios: ETH trades at 80; one price sample of 100 lies three hours
  back (\<open>stale_state\<close>) or one hour back (\<open>hot_state\<close>); the lookback is 24 hours and
  the threshold 15 percent. \<open>no_balance_manager\<close> reports a balance of 0.
\<close>

definition sl_manager :: manager where
  "sl_manager =
     ex_manager\<lparr>get_ticker_price := (\<lambda>t. if t = ''ETHUSDT'' then Inr (Some 80) else Inr None)\<rparr>"

definition stale_state :: state where
  "stale_state =
     ex_state\<lparr>coin_values :=
                [\<lparr>cv_coin = ETH, usd_price = Some 100, cv_datetime = 1000000 - 3 * 3600\<rparr>]\<rparr>"

definition hot_state :: state where
  "hot_state =
     ex_state\<lparr>coin_values :=
                [\<lparr>cv_coin = ETH, usd_price = Some 100, cv_datetime = 1000000 - 3600\<rparr>]\<rparr>"

definition no_balance_manager :: manager where
  "no_balance_manager = sl_manager\<lparr>get_currency_balance := (\<lambda>c. Inr 0)\<rparr>"

text \<open>A gateway that reports a balance of 0.1 ETH, worth 8 USDT, under the minimum of 10.\<close>

definition dust_balance :: real where "dust_balance = fl 0.1"

definition dust_manager :: manager where
  "dust_manager = sl_manager\<lparr>get_currency_balance := (\<lambda>c. Inr dust_balance)\<rparr>"

text \<open>
  The scenario of scouting from USDT: USDT is held; the inherited \<open>_get_ratios\<close> raises
  for ETH and gives BTC the ratios 0.125, -0.25 and 0.375. \<open>raising_buy_manager\<close> is a
  gateway whose buy order raises.
\<close>

definition scout_trader :: auto_trader where
  "scout_trader =
     ex_trader\<lparr>base_get_ratios :=
       (\<lambda>c p. if symbol c = ''ETH'' then (Inl (OtherException ''no pairs''), [], [])
              else (Inr [1 / 8, - (1 / 4), 3 / 8], [], []))\<rparr>"

definition raising_buy_manager :: manager where
  "raising_buy_manager = ex_manager\<lparr>buy_alt := (\<lambda>c b. Inl (OtherException ''timeout''))\<rparr>"

definition usdt_state :: state where
  "usdt_state = ex_state\<lparr>current_coin_rows := [USDT]\<rparr>"

text \<open>
  A second configuration whose bridge is BUSD, so that USDT is an ordinary coin: ETH
  trades at 2000 BUSD, and the pairs lead from BUSD to ETH, from ETH to BUSD and from USDT
  to ETH. In \<open>busd_hot_state\<close> USDT has a stored sample of 2 one hour back.
  \<open>tight_config\<close> is the first configuration with a stop-loss threshold of 29.
\<close>

definition BUSD :: Coin where "BUSD = \<lparr>symbol = ''BUSD'', enabled = True\<rparr>"

definition busd_config :: config where
  "busd_config = ex_config\<lparr>BRIDGE := BUSD\<rparr>"

definition busd_manager :: manager where
  "busd_manager =
     ex_manager\<lparr>get_ticker_price :=
       (\<lambda>t. if t = ''ETHBUSD'' then Inr (Some 2000) else Inr None)\<rparr>"

definition busd_eth :: Pair where
  "busd_eth =
     \<lparr>pair_id = 4, from_coin = BUSD, to_coin = ETH, ratio = small_ratio, pair_enabled = True\<rparr>"

definition eth_busd :: Pair where
  "eth_busd =
     \<lparr>pair_id = 5, from_coin = ETH, to_coin = BUSD, ratio = 2000, pair_enabled = True\<rparr>"

definition usdt_eth :: Pair where
  "usdt_eth =
     \<lparr>pair_id = 6, from_coin = USDT, to_coin = ETH, ratio = small_ratio, pair_enabled = True\<rparr>"

definition busd_state :: state where
  "busd_state = ex_state\<lparr>coins := [ETH, BUSD, USDT], pairs := [busd_eth, eth_busd, usdt_eth]\<rparr>"

definition tight_config :: config where
  "tight_config = ex_config\<lparr>STOP_LOSS_PERCENTAGE := 29\<rparr>"

definition busd_hot_state :: state where
  "busd_hot_state =
     busd_state\<lparr>coin_values :=
                  [\<lparr>cv_coin = USDT, usd_price = Some 2, cv_datetime = 1000000 - 3600\<rparr>]\<rparr>"

section \<open>Notions used in the properties\<close>

text \<open>
  \<open>scored p x\<close>: \<open>x\<close> is the score the loop body computes for the pair \<open>p\<close>; the
  loop stores nothing else.
\<close>

definition scored :: "config \<Rightarrow> manager \<Rightarrow> Coin \<Rightarrow> real \<Rightarrow> Pair \<Rightarrow> real \<Rightarrow> bool" where
  "scored cfg mgr c cp p x \<longleftrightarrow> (\<exists>q fo fi mt. optional_coin cfg mgr p = Inr (Some q, fo) \<and>
            get_fee mgr (from_coin p) (BRIDGE cfg) True = Inr fi \<and>
            mt_of cfg c p (fadd fi fo) = Inr mt \<and>
            x = fsub (fmul (fdiv cp q) (fsub 1 (fmul (fadd fi fo) mt))) (ratio p))"

text \<open>
  Two notions the properties of \<open>_scout_from_usdt\<close> are stated with. \<open>target_coins\<close>
  is the list of line 65, the enabled coins other than USDT. \<open>avg_potential\<close> is what
  lines 77 to 87 compute for one coin, apart from what they write: the exception raised,
  or the average of the coin's positive ratios if it has a price and a positive ratio.
\<close>

definition avg_potential :: "config \<Rightarrow> manager \<Rightarrow> auto_trader \<Rightarrow> Coin \<Rightarrow> exn + real option" where
  "avg_potential cfg mgr trd c =
     (case get_ticker_price mgr (ticker c (BRIDGE cfg)) of
        Inl e \<Rightarrow> Inl e
      | Inr None \<Rightarrow> Inr None
      | Inr (Some coin_price) \<Rightarrow>
          (case fst (base_get_ratios trd c coin_price) of
             Inl e \<Rightarrow> Inl e
           | Inr ratios \<Rightarrow>
               (let positive_ratios = filter (\<lambda>r. r > 0) ratios in
                if positive_ratios \<noteq> []
                then Inr (Some (fdiv (py_sum positive_ratios) (real (length positive_ratios))))
                else Inr None)))"

definition target_coins :: "state \<Rightarrow> Coin list" where
  "target_coins s = filter (\<lambda>c. symbol c \<noteq> ''USDT'') (get_coins s True)"

section \<open>Properties of the ratio engine\<close>

lemma get_ratios_pair_resolved:
  assumes "get_ratios_pair cfg mgr c cp p rd s = (Inr rd1, s1)"
    and "optional_coin cfg mgr p = Inr (Some q, fo)"
  shows "\<exists>fi mt. get_fee mgr (from_coin p) (BRIDGE cfg) True = Inr fi \<and>
            mt_of cfg c p (fadd fi fo) = Inr mt \<and>
            rd1 = rd(p \<mapsto> fsub (fmul (fdiv cp q) (fsub 1 (fmul (fadd fi fo) mt))) (ratio p)) \<and>
            s1 = log_scout p (ratio p) cp q s"
  using assms
  by (auto simp: get_ratios_pair_def Let_def split: if_splits sum.splits)

lemma get_ratios_pair_unresolved:
  assumes "get_ratios_pair cfg mgr c cp p rd s = (Inr rd1, s1)"
    and "optional_coin cfg mgr p = Inr (None, fo)"
  shows "rd1 = rd"
  using assms by (auto simp: get_ratios_pair_def)

lemma get_ratios_pair_raised:
  assumes "optional_coin cfg mgr p = Inl e"
  shows "get_ratios_pair cfg mgr c cp p rd s = (Inl e, s)"
  using assms by (auto simp: get_ratios_pair_def)

lemma get_ratios_pair_cases:
  assumes "get_ratios_pair cfg mgr c cp p rd s = (Inr rd1, s1)"
  shows "(\<exists>fo. optional_coin cfg mgr p = Inr (None, fo) \<and> rd1 = rd) \<or>
         (\<exists>q fo fi mt. optional_coin cfg mgr p = Inr (Some q, fo) \<and>
            get_fee mgr (from_coin p) (BRIDGE cfg) True = Inr fi \<and>
            mt_of cfg c p (fadd fi fo) = Inr mt \<and>
            rd1 = rd(p \<mapsto> fsub (fmul (fdiv cp q) (fsub 1 (fmul (fadd fi fo) mt))) (ratio p)))"
proof (cases "optional_coin cfg mgr p")
  case (Inl e)
  with assms show ?thesis by (simp add: get_ratios_pair_raised)
next
  case (Inr r)
  obtain qo fo where r: "r = (qo, fo)" by (cases r)
  show ?thesis
  proof (cases qo)
    case None
    with Inr r assms show ?thesis by (auto dest: get_ratios_pair_unresolved)
  next
    case (Some q)
    with Inr r get_ratios_pair_resolved[OF assms, of q fo] show ?thesis by auto
  qed
qed

lemma get_ratios_loop_scores:
  assumes "get_ratios_loop cfg mgr c cp ps rd s = (Inr rd', s')"
    and "\<And>p x. rd p = Some x \<Longrightarrow> scored cfg mgr c cp p x"
  shows "(\<forall>p x. rd' p = Some x \<longrightarrow> scored cfg mgr c cp p x) \<and>
         (\<forall>p q fo. (p \<in> set ps \<or> rd p \<noteq> None) \<and> optional_coin cfg mgr p = Inr (Some q, fo) \<longrightarrow> rd' p \<noteq> None)"
  using assms
proof (induction ps arbitrary: rd s)
  case Nil
  then show ?case by auto
next
  case (Cons a ps)
  from Cons.prems(1) obtain rd1 s1 where
    step: "get_ratios_pair cfg mgr c cp a rd s = (Inr rd1, s1)"
    and rest: "get_ratios_loop cfg mgr c cp ps rd1 s1 = (Inr rd', s')"
    by (auto split: prod.splits sum.splits)
  from get_ratios_pair_cases[OF step]
  have inv: "\<And>p x. rd1 p = Some x \<Longrightarrow> scored cfg mgr c cp p x"
    using Cons.prems(2) by (auto simp: scored_def split: if_splits)
  have dom: "\<And>p. rd p \<noteq> None \<Longrightarrow> rd1 p \<noteq> None"
    using get_ratios_pair_cases[OF step] by auto
  have hd: "\<And>q fo. optional_coin cfg mgr a = Inr (Some q, fo) \<Longrightarrow> rd1 a \<noteq> None"
    using get_ratios_pair_cases[OF step] by auto
  from Cons.IH[OF rest inv] dom hd show ?case by auto
qed

text \<open>
  C1. For every pair that \<open>_get_ratios\<close> evaluated and whose target price resolved, the
  score stored in the dictionary is \<open>cross_ratio * (1 - transaction_fee * mt) - pair.ratio\<close>,
  with \<open>cross_ratio = coin_price / optional_coin_price\<close>, \<open>transaction_fee\<close> the entry
  fee of the held coin plus the exit fee of the target, and \<open>mt\<close> the multiplier of the
  pair, each operation rounded to a double. The witness is the spec's scenario: held price
  2000, target price 40000, stored ratio 0.05, fees 0.001 + 0.001 and sensitivity 5 give
  the double \<open>-0.0005000000000000004\<close>, that is \<open>-9007199254741 / 2 ^ 54\<close>: negative, so
  no rotation, and within \<open>1 / 10 ^ 18\<close> of -0.0005.
\<close>

theorem get_ratios_score:
  assumes "get_ratios cfg mgr c coin_price s = (Inr ratio_dict, s')"
    and "p \<in> set (get_pairs_from s c)"
    and "optional_coin cfg mgr p = Inr (Some optional_coin_price, fee_out)"
  shows "\<exists>fee_in mt.
           get_fee mgr (from_coin p) (BRIDGE cfg) True = Inr fee_in \<and>
           mt_of cfg c p (fadd fee_in fee_out) = Inr mt \<and>
           ratio_dict p =
             Some (fsub (fmul (fdiv coin_price optional_coin_price)
                           (fsub 1 (fmul (fadd fee_in fee_out) mt)))
                     (ratio p))"
proof -
  have loop: "get_ratios_loop cfg mgr c coin_price (get_pairs_from s c) Map.empty s
                = (Inr ratio_dict, s')"
    using assms(1) by (simp add: get_ratios_def)
  have inv: "\<And>p x. Map.empty p = Some x \<Longrightarrow> scored cfg mgr c coin_price p x" by simp
  from get_ratios_loop_scores[OF loop inv] assms(2,3)
  obtain x where x: "ratio_dict p = Some x" and sc: "scored cfg mgr c coin_price p x"
    by fastforce
  from sc assms(3) x show ?thesis by (auto simp: scored_def)
qed

lemma fee_rate_sum_nonzero: "fadd fee_rate 0 \<noteq> 0"
  by code_simp

lemma ex_get_ratios:
  "get_ratios ex_config ex_manager ETH 2000 ex_state =
     (Inr (Map.empty(
        eth_btc \<mapsto> fsub (fmul (fdiv 2000 40000) (fsub 1 (fmul (fadd fee_rate fee_rate) 5)))
                     stored_ratio,
        eth_usdt \<mapsto> fsub (fmul (fdiv 2000 1)
                             (fsub 1 (fmul (fadd fee_rate 0)
                                        (fdiv (- fl 0.001) (fadd fee_rate 0)))))
                      2000)),
      log_scout eth_usdt 2000 2000 1 (log_scout eth_btc stored_ratio 2000 40000 ex_state))"
  by (simp add: get_ratios_def get_pairs_from_def get_ratios_pair_def optional_coin_def mt_of_def
      cmt_def ticker_def ex_defs Let_def fee_rate_sum_nonzero)

lemma scenario_step_1: "fdiv 2000 40000 = 3602879701896397 / 72057594037927936"
  by code_simp

lemma fee_rate_value: "fee_rate = 1152921504606847 / 1152921504606846976"
  by code_simp

lemma scenario_step_2: "fadd (1152921504606847 / 1152921504606846976) (1152921504606847 / 1152921504606846976) = 1152921504606847 / 576460752303423488"
  by code_simp

lemma scenario_step_3: "fmul (1152921504606847 / 576460752303423488) 5 = 5764607523034235 / 576460752303423488"
  by code_simp

lemma scenario_step_4: "fsub 1 (5764607523034235 / 576460752303423488) = 4458563631096791 / 4503599627370496"
  by code_simp

lemma scenario_step_5: "fmul (3602879701896397 / 72057594037927936) (4458563631096791 / 4503599627370496) = 3566850904877433 / 72057594037927936"
  by code_simp

lemma stored_ratio_value: "stored_ratio = 3602879701896397 / 72057594037927936"
  by code_simp

lemma scenario_step_6: "fsub (3566850904877433 / 72057594037927936) (3602879701896397 / 72057594037927936) = - 9007199254741 / 18014398509481984"
  by code_simp

lemma scenario_score: "fsub (fmul (fdiv 2000 40000) (fsub 1 (fmul (fadd (fee_rate) (fee_rate)) 5))) (stored_ratio) = - 9007199254741 / 18014398509481984"
  unfolding scenario_step_1 fee_rate_value scenario_step_2 scenario_step_3 scenario_step_4 scenario_step_5 stored_ratio_value scenario_step_6 by (rule refl)

lemma scenario_score_inexact:
  "(- 9007199254741 / 18014398509481984 :: real) \<noteq> - 0.0005"
  "(- 9007199254741 / 18014398509481984 :: real) \<noteq> fl (- 0.0005)"
  "(- 9007199254741 / 18014398509481984 :: real) < 0"
  "\<bar>- 9007199254741 / 18014398509481984 - (- 0.0005)\<bar> < (1 / 10 ^ 18 :: real)"
  by code_simp+

theorem get_ratios_score_witness:
  "\<exists>ratio_dict s'. get_ratios ex_config ex_manager ETH 2000 ex_state = (Inr ratio_dict, s') \<and>
     eth_btc \<in> set (get_pairs_from ex_state ETH) \<and>
     optional_coin ex_config ex_manager eth_btc = Inr (Some 40000, fee_rate) \<and>
     get_fee ex_manager (from_coin eth_btc) (BRIDGE ex_config) True = Inr fee_rate \<and>
     mt_of ex_config ETH eth_btc (fadd fee_rate fee_rate) = Inr 5 \<and>
     ratio eth_btc = stored_ratio \<and>
     ratio_dict eth_btc = Some (- 9007199254741 / 18014398509481984) \<and>
     (- 9007199254741 / 18014398509481984 :: real) < 0 \<and>
     \<bar>- 9007199254741 / 18014398509481984 - (- 0.0005)\<bar> < (1 / 10 ^ 18 :: real)"
proof -
  obtain rd s' where run: "get_ratios ex_config ex_manager ETH 2000 ex_state = (Inr rd, s')"
    using ex_get_ratios by blast
  have mem: "eth_btc \<in> set (get_pairs_from ex_state ETH)"
    by (simp add: get_pairs_from_def ex_defs)
  have oc: "optional_coin ex_config ex_manager eth_btc = Inr (Some 40000, fee_rate)"
    by (simp add: optional_coin_def ticker_def ex_defs)
  have fee: "get_fee ex_manager (from_coin eth_btc) (BRIDGE ex_config) True = Inr fee_rate"
    by (simp add: ex_manager_def)
  have mt5: "mt_of ex_config ETH eth_btc (fadd fee_rate fee_rate) = Inr 5"
    by (simp add: mt_of_def cmt_def ex_defs)
  have rt: "ratio eth_btc = stored_ratio" by (simp add: eth_btc_def)
  from get_ratios_score[OF run mem oc]
  obtain fee_in mt where
    "get_fee ex_manager (from_coin eth_btc) (BRIDGE ex_config) True = Inr fee_in"
    and "mt_of ex_config ETH eth_btc (fadd fee_in fee_rate) = Inr mt"
    and score: "rd eth_btc =
      Some (fsub (fmul (fdiv 2000 40000) (fsub 1 (fmul (fadd fee_in fee_rate) mt)))
              (ratio eth_btc))"
    by blast
  with fee mt5 have "fee_in = fee_rate" "mt = 5" by simp_all
  with score have "rd eth_btc = Some (- 9007199254741 / 18014398509481984)"
    unfolding rt by (simp only: scenario_score)
  with run mem oc fee mt5 rt scenario_score_inexact(3,4) show ?thesis by blast
qed

text \<open>
  In that scenario the score is not -0.0005, nor the double nearest to -0.0005: the
  product \<open>0.05 * 0.99\<close> and the stored ratio 0.05 are doubles, and their difference
  is the double \<open>-0.0005000000000000004\<close>.
\<close>

theorem score_is_rounded:
  "fee_rate = fl 0.001 \<and> stored_ratio = fl 0.05 \<and>
   (\<exists>ratio_dict s'. get_ratios ex_config ex_manager ETH 2000 ex_state = (Inr ratio_dict, s') \<and>
      ratio_dict eth_btc = Some (- 9007199254741 / 18014398509481984) \<and>
      ratio_dict eth_btc \<noteq> Some (- 0.0005) \<and>
      ratio_dict eth_btc \<noteq> Some (fl (- 0.0005)))"
proof -
  have "(Map.empty(
        eth_btc \<mapsto> fsub (fmul (fdiv 2000 40000) (fsub 1 (fmul (fadd fee_rate fee_rate) 5)))
                     stored_ratio,
        eth_usdt \<mapsto> fsub (fmul (fdiv 2000 1)
                             (fsub 1 (fmul (fadd fee_rate 0)
                                        (fdiv (- fl 0.001) (fadd fee_rate 0)))))
                      2000)) eth_btc = Some (- 9007199254741 / 18014398509481984)"
    unfolding scenario_score by (simp add: eth_btc_def eth_usdt_def)
  with ex_get_ratios scenario_score_inexact(1,2) show ?thesis
    by (auto simp: fee_rate_def stored_ratio_def)
qed

text \<open>
  C4. In \<open>_get_ratios\<close>, for every evaluated pair whose target price resolved, the
  multiplier \<open>mt\<close> that enters the score is \<open>-0.001 / transaction_fee\<close> when the
  target of the pair has symbol \<open>USDT\<close>; otherwise it is the configured
  \<open>SCOUT_MULTIPLIER\<close>, times 1.4 exactly when the source of the pair has symbol
  \<open>USDT\<close>. Both tests are on the literal symbol \<open>USDT\<close>, whatever the configured
  bridge is.
\<close>

theorem sensitivity_multiplier:
  assumes "get_ratios cfg mgr c coin_price s = (Inr ratio_dict, s')"
    and "p \<in> set (get_pairs_from s c)"
    and "optional_coin cfg mgr p = Inr (Some optional_coin_price, fee_out)"
  shows "\<exists>fee_in mt.
           get_fee mgr (from_coin p) (BRIDGE cfg) True = Inr fee_in \<and>
           mt = (if symbol (to_coin p) = ''USDT'' then fdiv (- fl 0.001) (fadd fee_in fee_out)
                 else if symbol (from_coin p) = ''USDT'' then fmul (SCOUT_MULTIPLIER cfg) (fl 1.4)
                 else SCOUT_MULTIPLIER cfg) \<and>
           ratio_dict p =
             Some (fsub (fmul (fdiv coin_price optional_coin_price)
                           (fsub 1 (fmul (fadd fee_in fee_out) mt)))
                     (ratio p))"
proof -
  have loop: "get_ratios_loop cfg mgr c coin_price (get_pairs_from s c) Map.empty s
                = (Inr ratio_dict, s')"
    using assms(1) by (simp add: get_ratios_def)
  have inv: "\<And>p x. Map.empty p = Some x \<Longrightarrow> scored cfg mgr c coin_price p x" by simp
  from get_ratios_loop_scores[OF loop inv] assms(2,3)
  obtain x where x: "ratio_dict p = Some x" and sc: "scored cfg mgr c coin_price p x"
    by fastforce
  from sc assms(3) obtain fee_in mt where
    fee: "get_fee mgr (from_coin p) (BRIDGE cfg) True = Inr fee_in"
    and mt: "mt_of cfg c p (fadd fee_in fee_out) = Inr mt"
    and xv: "x = fsub (fmul (fdiv coin_price optional_coin_price)
                         (fsub 1 (fmul (fadd fee_in fee_out) mt)))
                   (ratio p)"
    by (auto simp: scored_def)
  from assms(2) have src: "symbol (from_coin p) = symbol c"
    by (simp add: get_pairs_from_def)
  from mt src have "mt = (if symbol (to_coin p) = ''USDT''
                 then fdiv (- fl 0.001) (fadd fee_in fee_out)
                 else if symbol (from_coin p) = ''USDT'' then fmul (SCOUT_MULTIPLIER cfg) (fl 1.4)
                 else SCOUT_MULTIPLIER cfg)"
    by (auto simp: mt_of_def cmt_def split: if_splits)
  with fee x xv show ?thesis by blast
qed

lemma ex_get_ratios_usdt:
  "\<exists>rd s'. get_ratios ex_config ex_manager USDT 1 ex_state = (Inr rd, s')"
  by (simp add: get_ratios_def get_pairs_from_def get_ratios_pair_def optional_coin_def mt_of_def
      cmt_def ticker_def ex_defs Let_def)

theorem sensitivity_multiplier_witness:
  "(\<exists>rd s'. get_ratios ex_config ex_manager ETH 2000 ex_state = (Inr rd, s') \<and>
      eth_usdt \<in> set (get_pairs_from ex_state ETH) \<and>
      optional_coin ex_config ex_manager eth_usdt = Inr (Some 1, 0) \<and>
      rd eth_usdt =
        Some (fsub (fmul (fdiv 2000 1)
                      (fsub 1 (fmul (fadd fee_rate 0) (fdiv (- fl 0.001) (fadd fee_rate 0)))))
                2000) \<and>
      eth_btc \<in> set (get_pairs_from ex_state ETH) \<and>
      optional_coin ex_config ex_manager eth_btc = Inr (Some 40000, fee_rate) \<and>
      rd eth_btc =
        Some (fsub (fmul (fdiv 2000 40000) (fsub 1 (fmul (fadd fee_rate fee_rate) 5)))
                stored_ratio)) \<and>
   (\<exists>rd s'. get_ratios ex_config ex_manager USDT 1 ex_state = (Inr rd, s') \<and>
      usdt_btc \<in> set (get_pairs_from ex_state USDT) \<and>
      optional_coin ex_config ex_manager usdt_btc = Inr (Some 40000, fee_rate) \<and>
      rd usdt_btc =
        Some (fsub (fmul (fdiv 1 40000) (fsub 1 (fmul (fadd fee_rate fee_rate) (fmul 5 (fl 1.4)))))
                small_ratio))"
proof -
  obtain rd s' where run: "get_ratios ex_config ex_manager ETH 2000 ex_state = (Inr rd, s')"
    using ex_get_ratios by blast
  have mem1: "eth_usdt \<in> set (get_pairs_from ex_state ETH)"
    and mem2: "eth_btc \<in> set (get_pairs_from ex_state ETH)"
    and mem3: "usdt_btc \<in> set (get_pairs_from ex_state USDT)"
    by (simp_all add: get_pairs_from_def ex_defs)
  have oc1: "optional_coin ex_config ex_manager eth_usdt = Inr (Some 1, 0)"
    and oc2: "optional_coin ex_config ex_manager eth_btc = Inr (Some 40000, fee_rate)"
    and oc3: "optional_coin ex_config ex_manager usdt_btc = Inr (Some 40000, fee_rate)"
    by (simp_all add: optional_coin_def ticker_def ex_defs)
  have fee: "\<And>c b f. get_fee ex_manager c b True = Inr f \<Longrightarrow> f = fee_rate"
    by (simp add: ex_manager_def)
  from sensitivity_multiplier[OF run mem1 oc1]
  have r1: "rd eth_usdt =
        Some (fsub (fmul (fdiv 2000 1)
                      (fsub 1 (fmul (fadd fee_rate 0) (fdiv (- fl 0.001) (fadd fee_rate 0)))))
                2000)"
    by (auto dest!: fee simp: eth_usdt_def USDT_def)
  from sensitivity_multiplier[OF run mem2 oc2]
  have r2: "rd eth_btc =
        Some (fsub (fmul (fdiv 2000 40000) (fsub 1 (fmul (fadd fee_rate fee_rate) 5)))
                stored_ratio)"
    by (auto dest!: fee simp: eth_btc_def ETH_def BTC_def ex_config_def)
  obtain rd3 s3 where run3: "get_ratios ex_config ex_manager USDT 1 ex_state = (Inr rd3, s3)"
    using ex_get_ratios_usdt by blast
  from sensitivity_multiplier[OF run3 mem3 oc3]
  have r3: "rd3 usdt_btc =
        Some (fsub (fmul (fdiv 1 40000) (fsub 1 (fmul (fadd fee_rate fee_rate) (fmul 5 (fl 1.4)))))
                small_ratio)"
    by (auto dest!: fee simp: usdt_btc_def USDT_def BTC_def ex_config_def)
  from run mem1 oc1 r1 mem2 oc2 r2 run3 mem3 oc3 r3 show ?thesis by blast
qed

lemma boost_value: "fmul 5 (fl 1.4) = 7"
  by code_simp

lemma parking_value: "fdiv (- fl 0.001) (fadd fee_rate fee_rate) = - 1 / 2"
  by code_simp

lemma busd_get_ratios:
  "get_ratios busd_config busd_manager BUSD 1 busd_state =
     (Inr (Map.empty(
        busd_eth \<mapsto> fsub (fmul (fdiv 1 2000) (fsub 1 (fmul (fadd fee_rate fee_rate) 5)))
                      small_ratio)),
      log_scout busd_eth small_ratio 1 2000 busd_state)"
  by (simp add: get_ratios_def get_pairs_from_def get_ratios_pair_def optional_coin_def mt_of_def
      cmt_def ticker_def busd_config_def busd_manager_def busd_state_def busd_eth_def
      eth_busd_def usdt_eth_def BUSD_def ex_defs Let_def)

text \<open>
  With BUSD as the bridge the tests do not follow the bridge. A rotation from ETH into
  the bridge gets the configured sensitivity 5, not \<open>-0.001 / 0.002 = -0.5\<close>; a rotation
  from the bridge to ETH gets 5, not \<open>5 * 1.4 = 7\<close>; and a rotation from USDT, which is
  not the bridge, to ETH gets 7.
\<close>

theorem multiplier_tests_usdt_not_bridge:
  "symbol (BRIDGE busd_config) = ''BUSD'' \<and> SCOUT_MULTIPLIER busd_config = 5 \<and>
   symbol (to_coin eth_busd) = symbol (BRIDGE busd_config) \<and>
   mt_of busd_config ETH eth_busd (fadd fee_rate fee_rate) = Inr 5 \<and>
   fdiv (- fl 0.001) (fadd fee_rate fee_rate) = - 1 / 2 \<and>
   symbol (from_coin busd_eth) = symbol (BRIDGE busd_config) \<and>
   mt_of busd_config BUSD busd_eth (fadd fee_rate fee_rate) = Inr 5 \<and>
   fmul 5 (fl 1.4) = 7 \<and>
   get_ratios busd_config busd_manager BUSD 1 busd_state =
     (Inr (Map.empty(
        busd_eth \<mapsto> fsub (fmul (fdiv 1 2000) (fsub 1 (fmul (fadd fee_rate fee_rate) 5)))
                      small_ratio)),
      log_scout busd_eth small_ratio 1 2000 busd_state) \<and>
   symbol (from_coin usdt_eth) \<noteq> symbol (BRIDGE busd_config) \<and>
   mt_of busd_config USDT usdt_eth (fadd fee_rate fee_rate) = Inr 7"
proof -
  have "mt_of busd_config USDT usdt_eth (fadd fee_rate fee_rate) = Inr (fmul 5 (fl 1.4))"
    by (simp add: mt_of_def cmt_def busd_config_def usdt_eth_def ex_defs)
  then have boosted: "mt_of busd_config USDT usdt_eth (fadd fee_rate fee_rate) = Inr 7"
    by (simp only: boost_value)
  have plain: "mt_of busd_config ETH eth_busd (fadd fee_rate fee_rate) = Inr 5"
    "mt_of busd_config BUSD busd_eth (fadd fee_rate fee_rate) = Inr 5"
    by (simp_all add: mt_of_def cmt_def busd_config_def eth_busd_def busd_eth_def BUSD_def ex_defs)
  have syms: "symbol (BRIDGE busd_config) = ''BUSD''" "SCOUT_MULTIPLIER busd_config = 5"
    "symbol (to_coin eth_busd) = symbol (BRIDGE busd_config)"
    "symbol (from_coin busd_eth) = symbol (BRIDGE busd_config)"
    "symbol (from_coin usdt_eth) \<noteq> symbol (BRIDGE busd_config)"
    by (simp_all add: busd_config_def eth_busd_def busd_eth_def usdt_eth_def BUSD_def ex_defs)
  from syms plain boosted parking_value boost_value busd_get_ratios show ?thesis by blast
qed

text \<open>
  C10. When a pair whose target coin has symbol \<open>USDT\<close> is evaluated, the exit fee is
  0 and the gateway is not asked for it, so the transaction fee is the buy-side fee of
  the pair's source alone, and the multiplier is \<open>-0.001\<close> divided by that fee with no
  guard: a fee of 0 raises ZeroDivisionError, after the scout entry was written. So
  \<open>_get_ratios\<close> returns a dictionary only if the gateway reports a buy-side fee other
  than 0 for the source of every such pair.
\<close>

theorem usdt_target_fee:
  assumes "symbol (to_coin p) = ''USDT''"
  shows "(\<forall>fee_in. get_fee mgr (from_coin p) (BRIDGE cfg) True = Inr fee_in \<longrightarrow>
            get_ratios_pair cfg mgr c coin_price p rd s =
              (if fadd fee_in 0 = 0
               then (Inl ZeroDivisionError, log_scout p (ratio p) coin_price 1 s)
               else (Inr (rd(p \<mapsto>
                            fsub (fmul (fdiv coin_price 1)
                                    (fsub 1 (fmul (fadd fee_in 0)
                                               (fdiv (- fl 0.001) (fadd fee_in 0)))))
                              (ratio p))),
                     log_scout p (ratio p) coin_price 1 s))) \<and>
         (get_fee mgr (from_coin p) (BRIDGE cfg) True = Inr 0 \<longrightarrow>
            get_ratios_pair cfg mgr c coin_price p rd s =
              (Inl ZeroDivisionError, log_scout p (ratio p) coin_price 1 s)) \<and>
         (\<forall>ratio_dict s'. p \<in> set (get_pairs_from s c) \<and>
              get_ratios cfg mgr c coin_price s = (Inr ratio_dict, s') \<longrightarrow>
            (\<exists>fee_in. get_fee mgr (from_coin p) (BRIDGE cfg) True = Inr fee_in \<and> fee_in \<noteq> 0))"
proof (intro conjI allI impI)
  fix fee_in
  assume "get_fee mgr (from_coin p) (BRIDGE cfg) True = Inr fee_in"
  with assms show "get_ratios_pair cfg mgr c coin_price p rd s =
              (if fadd fee_in 0 = 0
               then (Inl ZeroDivisionError, log_scout p (ratio p) coin_price 1 s)
               else (Inr (rd(p \<mapsto>
                            fsub (fmul (fdiv coin_price 1)
                                    (fsub 1 (fmul (fadd fee_in 0)
                                               (fdiv (- fl 0.001) (fadd fee_in 0)))))
                              (ratio p))),
                     log_scout p (ratio p) coin_price 1 s))"
    by (simp add: get_ratios_pair_def optional_coin_def mt_of_def Let_def)
next
  assume "get_fee mgr (from_coin p) (BRIDGE cfg) True = Inr 0"
  with assms show "get_ratios_pair cfg mgr c coin_price p rd s =
              (Inl ZeroDivisionError, log_scout p (ratio p) coin_price 1 s)"
    by (simp add: get_ratios_pair_def optional_coin_def mt_of_def Let_def fadd_def fl_def)
next
  fix ratio_dict s'
  assume a: "p \<in> set (get_pairs_from s c) \<and>
              get_ratios cfg mgr c coin_price s = (Inr ratio_dict, s')"
  have oc: "optional_coin cfg mgr p = Inr (Some 1, 0)"
    using assms by (simp add: optional_coin_def)
  have loop: "get_ratios_loop cfg mgr c coin_price (get_pairs_from s c) Map.empty s
                = (Inr ratio_dict, s')"
    using a by (simp add: get_ratios_def)
  have inv: "\<And>p x. Map.empty p = Some x \<Longrightarrow> scored cfg mgr c coin_price p x" by simp
  from get_ratios_loop_scores[OF loop inv] a oc
  obtain x where "ratio_dict p = Some x" and sc: "scored cfg mgr c coin_price p x"
    by fastforce
  from sc oc assms show "\<exists>fee_in. get_fee mgr (from_coin p) (BRIDGE cfg) True = Inr fee_in \<and> fee_in \<noteq> 0"
    by (auto simp: scored_def mt_of_def fadd_def fl_def split: if_splits)
qed

theorem usdt_target_fee_witness:
  "symbol (to_coin eth_usdt) = ''USDT'' \<and>
   get_fee zero_fee_manager (from_coin eth_usdt) (BRIDGE ex_config) True = Inr 0 \<and>
   get_ratios_pair ex_config zero_fee_manager ETH 2000 eth_usdt Map.empty ex_state =
     (Inl ZeroDivisionError, log_scout eth_usdt 2000 2000 1 ex_state) \<and>
   get_fee ex_manager (from_coin eth_usdt) (BRIDGE ex_config) True = Inr fee_rate \<and>
   fadd fee_rate 0 \<noteq> 0 \<and>
   get_ratios_pair ex_config ex_manager ETH 2000 eth_usdt Map.empty ex_state =
     (Inr [eth_usdt \<mapsto>
             fsub (fmul (fdiv 2000 1)
                     (fsub 1 (fmul (fadd fee_rate 0) (fdiv (- fl 0.001) (fadd fee_rate 0)))))
               2000],
      log_scout eth_usdt 2000 2000 1 ex_state) \<and>
   eth_usdt \<in> set (get_pairs_from ex_state ETH) \<and>
   (\<exists>rd s'. get_ratios ex_config ex_manager ETH 2000 ex_state = (Inr rd, s'))"
proof -
  have usdt: "symbol (to_coin eth_usdt) = ''USDT''" by (simp add: eth_usdt_def USDT_def)
  have f0: "get_fee zero_fee_manager (from_coin eth_usdt) (BRIDGE ex_config) True = Inr 0"
    by (simp add: zero_fee_manager_def)
  have f1: "get_fee ex_manager (from_coin eth_usdt) (BRIDGE ex_config) True = Inr fee_rate"
    by (simp add: ex_manager_def)
  have mem: "eth_usdt \<in> set (get_pairs_from ex_state ETH)"
    by (simp add: get_pairs_from_def ex_defs)
  have run: "\<exists>rd s'. get_ratios ex_config ex_manager ETH 2000 ex_state = (Inr rd, s')"
    using ex_get_ratios by blast
  note zero_part = usdt_target_fee[OF usdt, THEN conjunct2, THEN conjunct1, rule_format]
  note first_part = usdt_target_fee[OF usdt, THEN conjunct1, rule_format]
  from zero_part[OF f0, of ETH 2000 Map.empty ex_state]
  have z: "get_ratios_pair ex_config zero_fee_manager ETH 2000 eth_usdt Map.empty ex_state =
     (Inl ZeroDivisionError, log_scout eth_usdt 2000 2000 1 ex_state)"
    by (simp add: eth_usdt_def)
  from first_part[OF f1, of ETH 2000 Map.empty ex_state]
  have nz: "get_ratios_pair ex_config ex_manager ETH 2000 eth_usdt Map.empty ex_state =
     (Inr [eth_usdt \<mapsto>
             fsub (fmul (fdiv 2000 1)
                     (fsub 1 (fmul (fadd fee_rate 0) (fdiv (- fl 0.001) (fadd fee_rate 0)))))
               2000],
      log_scout eth_usdt 2000 2000 1 ex_state)"
    by (simp add: eth_usdt_def fee_rate_sum_nonzero)
  from usdt f0 z f1 fee_rate_sum_nonzero nz mem run show ?thesis by blast
qed

section \<open>Properties of the rotation through the bridge\<close>

lemma can_sell_example: "10 < fmul 1 2000"
  by code_simp

lemma buy_leg_failed:
  assumes "symbol (to_coin p) \<noteq> ''USDT''" and "buy_alt mgr (to_coin p) (BRIDGE cfg) = Inr None"
  shows "buy_leg cfg mgr trd p s =
           (Inr None, logger INFO ''Couldn't buy, going back to scouting mode...''
                        (issue (BuyAlt (symbol (to_coin p)) (symbol (BRIDGE cfg))) s))"
  using assms by (simp add: buy_leg_def after_buy_def Let_def)

text \<open>
  C3. In \<open>transaction_through_bridge\<close>, a leg that returns \<open>None\<close> aborts the
  rotation and leaves the holding pointer as it was. When the sell leg is due and
  \<open>sell_alt\<close> returns \<open>None\<close>, the function returns \<open>None\<close>, the only order
  call issued is the sell, and no row is added to the current-coin table. When the
  sell leg was skipped or succeeded and \<open>buy_alt\<close> returns \<open>None\<close>,
  \<open>set_current_coin\<close> is not called, the last line logged is "Couldn't buy, going back
  to scouting mode..." (the source logs it at level info), and the function returns
  \<open>None\<close> with the current coin unchanged.
\<close>

theorem leg_failure_aborts:
  assumes "get_currency_balance mgr (symbol (from_coin p)) = Inr balance"
    and "get_ticker_price mgr (ticker (from_coin p) (BRIDGE cfg)) = Inr from_coin_price"
    and "can_sell_condition cfg mgr p balance from_coin_price = Inr can_sell"
  shows "(can_sell \<and> sell_alt mgr (from_coin p) (BRIDGE cfg) = Inr None \<longrightarrow>
           (\<exists>s'. transaction_through_bridge cfg mgr trd p s = (Inr None, s') \<and>
                 current_coin_rows s' = current_coin_rows s \<and>
                 exchange_calls s' =
                   exchange_calls s @ [SellAlt (symbol (from_coin p)) (symbol (BRIDGE cfg))] \<and>
                 log s' = log s @ [(INFO, ''Couldn't sell, going back to scouting mode...'')])) \<and>
         ((can_sell \<longrightarrow> (\<exists>sold. sell_alt mgr (from_coin p) (BRIDGE cfg) = Inr (Some sold))) \<and>
          symbol (to_coin p) \<noteq> ''USDT'' \<and> buy_alt mgr (to_coin p) (BRIDGE cfg) = Inr None \<longrightarrow>
           (\<exists>s'. transaction_through_bridge cfg mgr trd p s = (Inr None, s') \<and>
                 current_coin_rows s' = current_coin_rows s \<and>
                 get_current_coin s' = get_current_coin s \<and>
                 exchange_calls s' =
                   exchange_calls s @
                     (if can_sell then [SellAlt (symbol (from_coin p)) (symbol (BRIDGE cfg))] else []) @
                     [BuyAlt (symbol (to_coin p)) (symbol (BRIDGE cfg))] \<and>
                 last (log s') = (INFO, ''Couldn't buy, going back to scouting mode...'')))"
proof (intro conjI impI)
  assume "can_sell \<and> sell_alt mgr (from_coin p) (BRIDGE cfg) = Inr None"
  with assms show "\<exists>s'. transaction_through_bridge cfg mgr trd p s = (Inr None, s') \<and>
                 current_coin_rows s' = current_coin_rows s \<and>
                 exchange_calls s' =
                   exchange_calls s @ [SellAlt (symbol (from_coin p)) (symbol (BRIDGE cfg))] \<and>
                 log s' = log s @ [(INFO, ''Couldn't sell, going back to scouting mode...'')]"
    by (simp add: transaction_through_bridge_def Let_def logger_def issue_def)
next
  assume a: "(can_sell \<longrightarrow> (\<exists>sold. sell_alt mgr (from_coin p) (BRIDGE cfg) = Inr (Some sold))) \<and>
          symbol (to_coin p) \<noteq> ''USDT'' \<and> buy_alt mgr (to_coin p) (BRIDGE cfg) = Inr None"
  then have bl: "\<And>s0. buy_leg cfg mgr trd p s0 =
           (Inr None, logger INFO ''Couldn't buy, going back to scouting mode...''
                        (issue (BuyAlt (symbol (to_coin p)) (symbol (BRIDGE cfg))) s0))"
    by (simp add: buy_leg_failed)
  show "\<exists>s'. transaction_through_bridge cfg mgr trd p s = (Inr None, s') \<and>
                 current_coin_rows s' = current_coin_rows s \<and>
                 get_current_coin s' = get_current_coin s \<and>
                 exchange_calls s' =
                   exchange_calls s @
                     (if can_sell then [SellAlt (symbol (from_coin p)) (symbol (BRIDGE cfg))] else []) @
                     [BuyAlt (symbol (to_coin p)) (symbol (BRIDGE cfg))] \<and>
                 last (log s') = (INFO, ''Couldn't buy, going back to scouting mode...'')"
  proof (cases can_sell)
    case True
    with a obtain sold where "sell_alt mgr (from_coin p) (BRIDGE cfg) = Inr (Some sold)" by blast
    with True assms bl show ?thesis
      by (simp add: transaction_through_bridge_def Let_def logger_def issue_def get_current_coin_def)
  next
    case False
    with assms bl show ?thesis
      by (simp add: transaction_through_bridge_def Let_def logger_def issue_def get_current_coin_def)
  qed
qed

theorem leg_failure_aborts_witness:
  "get_currency_balance no_sell_manager (symbol (from_coin eth_btc)) = Inr 1 \<and>
   get_ticker_price no_sell_manager (ticker (from_coin eth_btc) (BRIDGE ex_config))
     = Inr (Some 2000) \<and>
   can_sell_condition ex_config no_sell_manager eth_btc 1 (Some 2000) = Inr True \<and>
   sell_alt no_sell_manager (from_coin eth_btc) (BRIDGE ex_config) = Inr None \<and>
   (\<exists>s'. transaction_through_bridge ex_config no_sell_manager ex_trader eth_btc ex_state
            = (Inr None, s') \<and>
         current_coin_rows s' = [ETH] \<and>
         exchange_calls s' = [SellAlt ''ETH'' ''USDT''] \<and>
         log s' = [(INFO, ''Couldn't sell, going back to scouting mode...'')]) \<and>
   can_sell_condition ex_config no_buy_manager eth_btc 1 (Some 2000) = Inr True \<and>
   sell_alt no_buy_manager (from_coin eth_btc) (BRIDGE ex_config) = Inr (Some \<lparr>price = 2000\<rparr>) \<and>
   symbol (to_coin eth_btc) \<noteq> ''USDT'' \<and>
   buy_alt no_buy_manager (to_coin eth_btc) (BRIDGE ex_config) = Inr None \<and>
   (\<exists>s'. transaction_through_bridge ex_config no_buy_manager ex_trader eth_btc ex_state
            = (Inr None, s') \<and>
         current_coin_rows s' = [ETH] \<and>
         get_current_coin s' = Some ETH \<and>
         exchange_calls s' = [SellAlt ''ETH'' ''USDT'', BuyAlt ''BTC'' ''USDT''] \<and>
         last (log s') = (INFO, ''Couldn't buy, going back to scouting mode...''))"
proof -
  have bal: "\<And>m. get_currency_balance (ex_manager\<lparr>sell_alt := m\<rparr>) (symbol (from_coin eth_btc)) = Inr 1"
    "\<And>m. get_currency_balance (ex_manager\<lparr>buy_alt := m\<rparr>) (symbol (from_coin eth_btc)) = Inr 1"
    "get_currency_balance no_sell_manager (symbol (from_coin eth_btc)) = Inr 1"
    by (simp_all add: no_sell_manager_def ex_defs)
  have tick: "\<And>m. get_ticker_price (ex_manager\<lparr>sell_alt := m\<rparr>)
                    (ticker (from_coin eth_btc) (BRIDGE ex_config)) = Inr (Some 2000)"
    "\<And>m. get_ticker_price (ex_manager\<lparr>buy_alt := m\<rparr>)
                    (ticker (from_coin eth_btc) (BRIDGE ex_config)) = Inr (Some 2000)"
    "get_ticker_price no_sell_manager (ticker (from_coin eth_btc) (BRIDGE ex_config))
       = Inr (Some 2000)"
    by (simp_all add: no_sell_manager_def ticker_def ex_defs)
  have cs1: "can_sell_condition ex_config no_sell_manager eth_btc 1 (Some 2000) = Inr True"
    and cs2: "can_sell_condition ex_config no_buy_manager eth_btc 1 (Some 2000) = Inr True"
    by (simp_all add: can_sell_condition_def no_sell_manager_def no_buy_manager_def ex_defs
        can_sell_example)
  have sell1: "sell_alt no_sell_manager (from_coin eth_btc) (BRIDGE ex_config) = Inr None"
    and sell2: "sell_alt no_buy_manager (from_coin eth_btc) (BRIDGE ex_config)
                  = Inr (Some \<lparr>price = 2000\<rparr>)"
    and buy2: "buy_alt no_buy_manager (to_coin eth_btc) (BRIDGE ex_config) = Inr None"
    and tgt: "symbol (to_coin eth_btc) \<noteq> ''USDT''"
    by (simp_all add: no_sell_manager_def no_buy_manager_def ex_defs)
  from leg_failure_aborts[of no_sell_manager eth_btc 1 ex_config "Some 2000" True ex_trader
      ex_state, unfolded no_sell_manager_def, OF bal(1) tick(1) cs1[unfolded no_sell_manager_def]]
    sell1
  have a: "\<exists>s'. transaction_through_bridge ex_config no_sell_manager ex_trader eth_btc ex_state
            = (Inr None, s') \<and>
         current_coin_rows s' = [ETH] \<and>
         exchange_calls s' = [SellAlt ''ETH'' ''USDT''] \<and>
         log s' = [(INFO, ''Couldn't sell, going back to scouting mode...'')]"
    by (simp add: no_sell_manager_def ex_state_def eth_btc_def ETH_def USDT_def ex_config_def)
  from leg_failure_aborts[of no_buy_manager eth_btc 1 ex_config "Some 2000" True ex_trader
      ex_state, unfolded no_buy_manager_def, OF bal(2) tick(2) cs2[unfolded no_buy_manager_def]]
    sell2 buy2 tgt
  have b: "\<exists>s'. transaction_through_bridge ex_config no_buy_manager ex_trader eth_btc ex_state
            = (Inr None, s') \<and>
         current_coin_rows s' = [ETH] \<and>
         get_current_coin s' = Some ETH \<and>
         exchange_calls s' = [SellAlt ''ETH'' ''USDT'', BuyAlt ''BTC'' ''USDT''] \<and>
         last (log s') = (INFO, ''Couldn't buy, going back to scouting mode...'')"
    by (simp add: no_buy_manager_def ex_state_def eth_btc_def ETH_def USDT_def BTC_def ex_config_def
        get_current_coin_def)
  from bal(3) tick(3) cs1 sell1 a cs2 sell2 tgt buy2 b show ?thesis by blast
qed

text \<open>
  C7, at the input where the code departs from it. For the pair ETH to USDT, with a
  balance and a price above the minimum notional, the sell order is issued and succeeds,
  the buy leg is skipped and \<open>result\<close> is the dict \<open>{"price": 1}\<close>; the holding
  pointer is set to USDT, and then \<open>result.price\<close> raises AttributeError, since a dict
  has no such attribute: \<open>update_trade_threshold\<close> is not called and the function does
  not return.
\<close>

theorem transaction_to_usdt_raises:
  "transaction_through_bridge ex_config ex_manager ex_trader eth_usdt ex_state =
     (Inl AttributeError,
      set_current_coin USDT (issue (SellAlt ''ETH'' ''USDT'') ex_state))"
  by (simp add: transaction_through_bridge_def can_sell_condition_def buy_leg_def after_buy_def
      ticker_def Let_def ex_defs ex_trader_def can_sell_example)

text \<open>
  A rotation whose target is not USDT and whose legs succeed. The sell order is issued
  exactly when the source is not USDT, the balance is not 0 and balance times price is
  above the minimum notional; otherwise "Skipping sell" is logged and the flow goes on to
  the buy. After the buy the holding pointer is set to the target, and
  \<open>update_trade_threshold\<close> is called with the target and the price of the buy order.
\<close>

theorem rotation_legs:
  assumes "get_currency_balance mgr (symbol (from_coin p)) = Inr balance"
    and "get_ticker_price mgr (ticker (from_coin p) (BRIDGE cfg)) = Inr (Some from_coin_price)"
    and "get_min_notional mgr (symbol (from_coin p)) (symbol (BRIDGE cfg)) = Inr min_notional"
    and "sell_alt mgr (from_coin p) (BRIDGE cfg) = Inr (Some sold)"
    and "symbol (to_coin p) \<noteq> ''USDT''"
    and "buy_alt mgr (to_coin p) (BRIDGE cfg) = Inr (Some bought)"
  shows "transaction_through_bridge cfg mgr trd p s =
           (let can_sell = (symbol (from_coin p) \<noteq> ''USDT'' \<and> balance \<noteq> 0 \<and>
                            fmul balance from_coin_price > min_notional);
                s1 = (if can_sell
                      then issue (SellAlt (symbol (from_coin p)) (symbol (BRIDGE cfg))) s
                      else logger INFO ''Skipping sell'' s);
                s2 = set_current_coin (to_coin p)
                       (issue (BuyAlt (symbol (to_coin p)) (symbol (BRIDGE cfg))) s1)
            in case update_trade_threshold trd (to_coin p) (price bought) s2 of
                 (Inl e, s3) \<Rightarrow> (Inl e, s3)
               | (Inr u, s3) \<Rightarrow> (Inr (Some (OrderObj bought)), s3))"
  using assms
  by (simp add: transaction_through_bridge_def can_sell_condition_def buy_leg_def after_buy_def
      Let_def)

theorem rotation_legs_witness:
  "get_currency_balance ex_manager (symbol (from_coin eth_btc)) = Inr 1 \<and>
   get_ticker_price ex_manager (ticker (from_coin eth_btc) (BRIDGE ex_config)) = Inr (Some 2000) \<and>
   get_min_notional ex_manager (symbol (from_coin eth_btc)) (symbol (BRIDGE ex_config)) = Inr 10 \<and>
   sell_alt ex_manager (from_coin eth_btc) (BRIDGE ex_config) = Inr (Some \<lparr>price = 2000\<rparr>) \<and>
   symbol (to_coin eth_btc) \<noteq> ''USDT'' \<and>
   buy_alt ex_manager (to_coin eth_btc) (BRIDGE ex_config) = Inr (Some \<lparr>price = 40000\<rparr>) \<and>
   transaction_through_bridge ex_config ex_manager ex_trader eth_btc ex_state =
     (Inr (Some (OrderObj \<lparr>price = 40000\<rparr>)),
      set_current_coin BTC
        (issue (BuyAlt ''BTC'' ''USDT'') (issue (SellAlt ''ETH'' ''USDT'') ex_state)))"
proof -
  have a: "get_currency_balance ex_manager (symbol (from_coin eth_btc)) = Inr 1"
    and b: "get_ticker_price ex_manager (ticker (from_coin eth_btc) (BRIDGE ex_config))
              = Inr (Some 2000)"
    and c: "get_min_notional ex_manager (symbol (from_coin eth_btc)) (symbol (BRIDGE ex_config))
              = Inr 10"
    and d: "sell_alt ex_manager (from_coin eth_btc) (BRIDGE ex_config) = Inr (Some \<lparr>price = 2000\<rparr>)"
    and e: "symbol (to_coin eth_btc) \<noteq> ''USDT''"
    and f: "buy_alt ex_manager (to_coin eth_btc) (BRIDGE ex_config) = Inr (Some \<lparr>price = 40000\<rparr>)"
    by (simp_all add: ticker_def ex_defs)
  from rotation_legs[OF a b c d e f, of ex_trader ex_state]
  have "transaction_through_bridge ex_config ex_manager ex_trader eth_btc ex_state =
     (Inr (Some (OrderObj \<lparr>price = 40000\<rparr>)),
      set_current_coin BTC
        (issue (BuyAlt ''BTC'' ''USDT'') (issue (SellAlt ''ETH'' ''USDT'') ex_state)))"
    by (simp add: ex_trader_def eth_btc_def ETH_def BTC_def USDT_def ex_config_def
        can_sell_example)
  with a b c d e f show ?thesis by blast
qed

section \<open>Properties of the trade log\<close>

text \<open>
  C2. The states observed of a trade are a prefix of \<open>CREATED\<close>, \<open>ORDERED\<close>,
  \<open>COMPLETE\<close>: the trade log creates the trade in state \<open>CREATED\<close>;
  \<open>set_ordered\<close> sets the two starting balances and the traded amount and moves the
  state to \<open>ORDERED\<close>, whatever it was; \<open>set_complete\<close> sets the acquired amount
  and moves the state to \<open>COMPLETE\<close>, whatever it was; and in the order in which the
  order execution calls them, a trade that was placed passes through \<open>ORDERED\<close>
  before it is \<open>COMPLETE\<close>. The trade log itself does not check the state it
  leaves.
\<close>

theorem trade_state_sequence:
  "prefix (map state (trade_lifecycle from_c to_c sell placed filled)) [CREATED, ORDERED, COMPLETE] \<and>
   map state (trade_lifecycle from_c to_c sell None filled) = [CREATED] \<and>
   map state (trade_lifecycle from_c to_c sell (Some (a, c, m)) None) = [CREATED, ORDERED] \<and>
   map state (trade_lifecycle from_c to_c sell (Some (a, c, m)) (Some k))
     = [CREATED, ORDERED, COMPLETE] \<and>
   state (TradeLog from_c to_c sell) = CREATED \<and>
   set_ordered a c m t =
     t\<lparr>alt_starting_balance := Some a, alt_trade_amount := Some m,
       crypto_starting_balance := Some c, state := ORDERED\<rparr> \<and>
   state (set_ordered a c m t) = ORDERED \<and>
   crypto_trade_amount (set_ordered a c m t) = crypto_trade_amount t \<and>
   set_complete k t = t\<lparr>crypto_trade_amount := Some k, state := COMPLETE\<rparr> \<and>
   state (set_complete k t) = COMPLETE \<and>
   alt_starting_balance (set_complete k t) = alt_starting_balance t \<and>
   alt_trade_amount (set_complete k t) = alt_trade_amount t \<and>
   crypto_starting_balance (set_complete k t) = crypto_starting_balance t"
proof -
  have "prefix (map state (trade_lifecycle from_c to_c sell placed filled))
          [CREATED, ORDERED, COMPLETE]"
    by (cases placed; cases filled)
       (auto simp: trade_lifecycle_def TradeLog_def new_Trade_def set_ordered_def
          set_complete_def Let_def)
  then show ?thesis
    by (simp add: trade_lifecycle_def TradeLog_def new_Trade_def set_ordered_def
          set_complete_def Let_def)
qed

section \<open>Properties of the stop-loss monitor\<close>

lemma fl_zero: "fl 0 = 0"
  by (simp add: fl_def)

lemma drop_self: "fmul (fdiv (fsub x x) x) 100 = 0"
  by (simp add: fmul_def fdiv_def fsub_def fl_zero)

lemma drop_80_step_1: "fsub 100 80 = 20"
  by code_simp

lemma drop_80_step_2: "fdiv 20 100 = 3602879701896397 / 18014398509481984"
  by code_simp

lemma drop_80_step_3: "fmul (3602879701896397 / 18014398509481984) 100 = 20"
  by code_simp

lemma drop_80: "fmul (fdiv (fsub 100 80) 100) 100 = 20"
  unfolding drop_80_step_1 drop_80_step_2 drop_80_step_3 by (rule refl)

lemma drop_90_step_1: "fsub 100 90 = 10"
  by code_simp

lemma drop_90_step_2: "fdiv 10 100 = 3602879701896397 / 36028797018963968"
  by code_simp

lemma drop_90_step_3: "fmul (3602879701896397 / 36028797018963968) 100 = 10"
  by code_simp

lemma drop_90: "fmul (fdiv (fsub 100 90) 100) 100 = 10"
  unfolding drop_90_step_1 drop_90_step_2 drop_90_step_3 by (rule refl)

lemma drop_71_step_1: "fsub 100 71 = 29"
  by code_simp

lemma drop_71_step_2: "fdiv 29 100 = 5224175567749775 / 18014398509481984"
  by code_simp

lemma drop_71_step_3: "fmul (5224175567749775 / 18014398509481984) 100 = 8162774324609023 / 281474976710656"
  by code_simp

lemma drop_71: "fmul (fdiv (fsub 100 71) 100) 100 = 8162774324609023 / 281474976710656"
  unfolding drop_71_step_1 drop_71_step_2 drop_71_step_3 by (rule refl)

lemma drop_usdt_step_1: "fsub 2 1 = 1"
  by code_simp

lemma drop_usdt_step_2: "fdiv 1 2 = 1 / 2"
  by code_simp

lemma drop_usdt_step_3: "fmul (1 / 2) 100 = 50"
  by code_simp

lemma drop_usdt: "fmul (fdiv (fsub 2 1) 2) 100 = 50"
  unfolding drop_usdt_step_1 drop_usdt_step_2 drop_usdt_step_3 by (rule refl)

lemma dust_balance_value: "dust_balance = 3602879701896397 / 36028797018963968"
  by code_simp

lemma dust_step_1: "fmul (3602879701896397 / 36028797018963968) 80 = 8"
  by code_simp

lemma dust_value: "fmul (dust_balance) 80 = 8"
  unfolding dust_balance_value dust_step_1 by (rule refl)

lemma drop_71_below: "(8162774324609023 / 281474976710656 :: real) < 29"
  by simp

text \<open>
  C5, at the input where the code departs from it. The lookback is 24 hours and the
  only price sample of ETH, 100, is three hours old. Asked for the last 24 hours,
  \<open>get_coin_high_price_from_values\<close> finds it; but \<open>_get_recent_high_price\<close> passes
  \<open>24 // 24 + 1 = 2\<close>, a number of days, as the number of hours, so the sample is not
  seen, the live price 80 becomes the recent high, the drop is 0 and the stop-loss does
  not trip.
\<close>

theorem recent_high_misses_sample:
  "TRAILING_STOP_HOURS ex_config = 24 \<and>
   coin_values stale_state =
     [\<lparr>cv_coin = ETH, usd_price = Some 100, cv_datetime = now stale_state - 3 * 3600\<rparr>] \<and>
   get_coin_high_price_from_values stale_state ETH (TRAILING_STOP_HOURS ex_config) None = Some 100 \<and>
   get_coin_high_price_from_values stale_state ETH (TRAILING_STOP_HOURS ex_config div 24 + 1) None
     = None \<and>
   get_recent_high_price ex_config sl_manager ETH None stale_state =
     (Inr (Some 80),
      logger WARNING ''No high price history for ETH, using current price as reference''
        stale_state) \<and>
   fst (check_trailing_stop_loss ex_config sl_manager ETH 80 None stale_state) = Inr False \<and>
   exchange_calls (snd (check_trailing_stop_loss ex_config sl_manager ETH 80 None stale_state)) = []"
  by (simp add: get_recent_high_price_def get_coin_high_price_from_values_def
      get_coin_recent_high_price_def time_diff_def check_trailing_stop_loss_def
      stale_state_def sl_manager_def ticker_def max_of_def List.map_filter_def scout_max_def
      logger_def ex_defs Let_def drop_self)

text \<open>
  Cold start. When neither query has a price (none, or 0) and the gateway has a live
  price, that price is the recent high; for the same price as the current one and a
  threshold above 0 the stop-loss does not trip: no order is issued and the holding
  pointer stays.
\<close>

theorem cold_start_no_trip:
  assumes "symbol c \<noteq> ''USDT''"
    and "\<not> truthy (get_coin_high_price_from_values s c (TRAILING_STOP_HOURS cfg div 24 + 1)
                     current_time)"
    and "\<not> truthy (get_coin_recent_high_price s c (TRAILING_STOP_HOURS cfg) current_time)"
    and "get_ticker_price mgr (ticker c (BRIDGE cfg)) = Inr (Some current_price)"
    and "0 < STOP_LOSS_PERCENTAGE cfg"
  shows "get_recent_high_price cfg mgr c current_time s =
           (Inr (Some current_price),
            logger WARNING (''No high price history for '' @ symbol c
                            @ '', using current price as reference'') s) \<and>
         fst (check_trailing_stop_loss cfg mgr c current_price current_time s) = Inr False \<and>
         exchange_calls (snd (check_trailing_stop_loss cfg mgr c current_price current_time s))
           = exchange_calls s \<and>
         current_coin_rows (snd (check_trailing_stop_loss cfg mgr c current_price current_time s))
           = current_coin_rows s"
  using assms
  by (simp add: get_recent_high_price_def check_trailing_stop_loss_def Let_def logger_def
      drop_self)

theorem cold_start_no_trip_witness:
  "symbol ETH \<noteq> ''USDT'' \<and>
   \<not> truthy (get_coin_high_price_from_values ex_state ETH
               (TRAILING_STOP_HOURS ex_config div 24 + 1) None) \<and>
   \<not> truthy (get_coin_recent_high_price ex_state ETH (TRAILING_STOP_HOURS ex_config) None) \<and>
   get_ticker_price sl_manager (ticker ETH (BRIDGE ex_config)) = Inr (Some 80) \<and>
   0 < STOP_LOSS_PERCENTAGE ex_config \<and>
   fst (check_trailing_stop_loss ex_config sl_manager ETH 80 None ex_state) = Inr False \<and>
   exchange_calls (snd (check_trailing_stop_loss ex_config sl_manager ETH 80 None ex_state)) = []"
proof -
  have a: "symbol ETH \<noteq> ''USDT''" by (simp add: ETH_def)
  have b: "\<not> truthy (get_coin_high_price_from_values ex_state ETH
               (TRAILING_STOP_HOURS ex_config div 24 + 1) None)"
    by (simp add: get_coin_high_price_from_values_def ex_state_def Let_def)
  have c: "\<not> truthy (get_coin_recent_high_price ex_state ETH (TRAILING_STOP_HOURS ex_config) None)"
    by (simp add: get_coin_recent_high_price_def scout_max_def Let_def ex_defs)
  have d: "get_ticker_price sl_manager (ticker ETH (BRIDGE ex_config)) = Inr (Some 80)"
    by (simp add: sl_manager_def ticker_def ex_defs)
  have e: "0 < STOP_LOSS_PERCENTAGE ex_config" by (simp add: ex_config_def)
  from cold_start_no_trip[OF a b c d e]
  have "fst (check_trailing_stop_loss ex_config sl_manager ETH 80 None ex_state) = Inr False"
    "exchange_calls (snd (check_trailing_stop_loss ex_config sl_manager ETH 80 None ex_state)) = []"
    by (simp_all add: ex_state_def)
  with a b c d e show ?thesis by blast
qed

lemma get_recent_high_price_frame:
  assumes "get_recent_high_price cfg mgr c current_time s = (r, s1)"
  shows "exchange_calls s1 = exchange_calls s \<and> current_coin_rows s1 = current_coin_rows s"
  using assms
  by (auto simp: get_recent_high_price_def Let_def logger_def split: if_splits sum.splits)

text \<open>
  C6. For a held coin whose symbol is not \<open>USDT\<close> and whose recent high resolved to a
  value other than 0, \<open>_check_trailing_stop_loss\<close> hands over to \<open>_execute_stop_loss\<close>
  exactly when \<open>(recent_high - current_price) / recent_high * 100\<close>, each operation
  rounded to a double, is at least the configured percentage; otherwise it answers
  \<open>False\<close>, and resolving the recent high issued no order and moved no holding pointer.
  The witness is the spec's scenario: recent high 100, price 80 and threshold 15 give a
  drop of exactly 20 and the liquidation sells ETH; at price 90 nothing happens.
\<close>

theorem stop_loss_trips:
  assumes "symbol c \<noteq> ''USDT''"
    and "get_recent_high_price cfg mgr c current_time s = (Inr (Some recent_high), s1)"
    and "recent_high \<noteq> 0"
  shows "check_trailing_stop_loss cfg mgr c current_price current_time s =
           (if fmul (fdiv (fsub recent_high current_price) recent_high) 100
                 \<ge> STOP_LOSS_PERCENTAGE cfg
            then execute_stop_loss cfg mgr c s1
            else (Inr False, s1)) \<and>
         exchange_calls s1 = exchange_calls s \<and> current_coin_rows s1 = current_coin_rows s"
  using assms get_recent_high_price_frame[OF assms(2)]
  by (simp add: check_trailing_stop_loss_def Let_def)

lemma hot_recent_high:
  "get_recent_high_price ex_config mgr ETH None hot_state = (Inr (Some 100), hot_state)"
  by (simp add: get_recent_high_price_def get_coin_high_price_from_values_def
      get_coin_recent_high_price_def time_diff_def hot_state_def max_of_def
      List.map_filter_def scout_max_def ex_defs Let_def)

lemma sl_notional: "fmul 1 80 = 80"
  by code_simp

lemma hot_execute:
  "execute_stop_loss ex_config sl_manager ETH hot_state =
     (Inr True,
      logger INFO ''Stop loss completed: converted to USDT''
        (set_current_coin USDT
           (issue (SellAlt ''ETH'' ''USDT'')
              (logger INFO ''Executing stop loss: selling ETH'' hot_state))))"
  by (simp add: execute_stop_loss_def execute_stop_loss_body_def convert_to_usdt_def
      sl_manager_def ticker_def ex_defs Let_def sl_notional)

theorem stop_loss_trips_witness:
  "symbol ETH \<noteq> ''USDT'' \<and>
   get_recent_high_price ex_config sl_manager ETH None hot_state = (Inr (Some 100), hot_state) \<and>
   fmul (fdiv (fsub 100 80) 100) 100 = 20 \<and> STOP_LOSS_PERCENTAGE ex_config = 15 \<and>
   check_trailing_stop_loss ex_config sl_manager ETH 80 None hot_state =
     execute_stop_loss ex_config sl_manager ETH hot_state \<and>
   fst (check_trailing_stop_loss ex_config sl_manager ETH 80 None hot_state) = Inr True \<and>
   exchange_calls (snd (check_trailing_stop_loss ex_config sl_manager ETH 80 None hot_state))
     = [SellAlt ''ETH'' ''USDT''] \<and>
   check_trailing_stop_loss ex_config sl_manager ETH 90 None hot_state = (Inr False, hot_state)"
proof -
  have sym: "symbol ETH \<noteq> ''USDT''" by (simp add: ETH_def)
  have nz: "(100::real) \<noteq> 0" by simp
  have pct: "STOP_LOSS_PERCENTAGE ex_config = 15" by (simp add: ex_config_def)
  from stop_loss_trips[OF sym hot_recent_high nz, where current_price = 80 and mgr = sl_manager]
  have trip: "check_trailing_stop_loss ex_config sl_manager ETH 80 None hot_state =
     execute_stop_loss ex_config sl_manager ETH hot_state"
    by (simp add: pct drop_80)
  from stop_loss_trips[OF sym hot_recent_high nz, where current_price = 90 and mgr = sl_manager]
  have hold: "check_trailing_stop_loss ex_config sl_manager ETH 90 None hot_state
               = (Inr False, hot_state)"
    by (simp add: pct drop_90)
  have calls: "exchange_calls (snd (execute_stop_loss ex_config sl_manager ETH hot_state))
                 = [SellAlt ''ETH'' ''USDT'']"
    unfolding hot_execute
    by (simp add: logger_def issue_def set_current_coin_def hot_state_def ex_state_def)
  from sym hot_recent_high pct trip hold calls hot_execute drop_80 show ?thesis by simp
qed

text \<open>
  The statement above differs from a reading of the rule in exact arithmetic and by the
  bridge asset. With a recent high of 100, a price of 71 and a threshold of 29 the exact
  drop is 29, but the doubles give \<open>0.29 * 100 = 28.999999999999996\<close>, under the
  threshold, and nothing is liquidated. With BUSD as the bridge, a holding of USDT is not
  the bridge asset, its recent high resolves to 2, the drop at price 1 is 50 against a
  threshold of 15, and the check still answers \<open>False\<close>: it tests the symbol USDT, not
  the configured bridge.
\<close>

theorem stop_loss_exact_drop_not_tripped:
  "symbol ETH \<noteq> symbol (BRIDGE tight_config) \<and>
   STOP_LOSS_PERCENTAGE tight_config = 29 \<and>
   get_recent_high_price tight_config sl_manager ETH None hot_state
     = (Inr (Some 100), hot_state) \<and>
   (100 - 71) / 100 * 100 \<ge> (29::real) \<and>
   fmul (fdiv (fsub 100 71) 100) 100 = 8162774324609023 / 281474976710656 \<and>
   fmul (fdiv (fsub 100 71) 100) 100 < 29 \<and>
   check_trailing_stop_loss tight_config sl_manager ETH 71 None hot_state
     = (Inr False, hot_state) \<and>
   symbol USDT \<noteq> symbol (BRIDGE busd_config) \<and>
   STOP_LOSS_PERCENTAGE busd_config = 15 \<and>
   get_recent_high_price busd_config busd_manager USDT None busd_hot_state
     = (Inr (Some 2), busd_hot_state) \<and>
   fmul (fdiv (fsub 2 1) 2) 100 = 50 \<and>
   check_trailing_stop_loss busd_config busd_manager USDT 1 None busd_hot_state
     = (Inr False, busd_hot_state)"
proof -
  have high: "get_recent_high_price tight_config sl_manager ETH None hot_state
                = (Inr (Some 100), hot_state)"
    by (simp add: get_recent_high_price_def get_coin_high_price_from_values_def
        get_coin_recent_high_price_def time_diff_def hot_state_def max_of_def
        List.map_filter_def scout_max_def tight_config_def ex_defs Let_def)
  have pct: "STOP_LOSS_PERCENTAGE tight_config = 29"
    by (simp add: tight_config_def ex_config_def)
  have sym: "symbol ETH \<noteq> ''USDT''" "symbol ETH \<noteq> symbol (BRIDGE tight_config)"
    by (simp_all add: tight_config_def ex_defs)
  have below: "fmul (fdiv (fsub 100 71) 100) 100 < 29"
    unfolding drop_71 by (rule drop_71_below)
  have hold: "check_trailing_stop_loss tight_config sl_manager ETH 71 None hot_state
                = (Inr False, hot_state)"
    using sym(1) below by (simp add: check_trailing_stop_loss_def high pct Let_def)
  have bhigh: "get_recent_high_price busd_config busd_manager USDT None busd_hot_state
                 = (Inr (Some 2), busd_hot_state)"
    by (simp add: get_recent_high_price_def get_coin_high_price_from_values_def
        get_coin_recent_high_price_def time_diff_def busd_hot_state_def busd_state_def
        max_of_def List.map_filter_def scout_max_def busd_config_def get_pairs_from_def
        busd_eth_def eth_busd_def usdt_eth_def BUSD_def ex_defs Let_def)
  have bsym: "symbol USDT \<noteq> symbol (BRIDGE busd_config)"
    by (simp add: busd_config_def BUSD_def ex_defs)
  have bpct: "STOP_LOSS_PERCENTAGE busd_config = 15"
    by (simp add: busd_config_def ex_config_def)
  have bhold: "check_trailing_stop_loss busd_config busd_manager USDT 1 None busd_hot_state
                 = (Inr False, busd_hot_state)"
    by (simp add: check_trailing_stop_loss_def USDT_def)
  have exact: "(100 - 71) / 100 * 100 \<ge> (29::real)" by simp
  from sym(2) pct high exact drop_71 below hold bsym bpct bhigh drop_usdt bhold
  show ?thesis by simp
qed

lemma execute_stop_loss_no_balance:
  assumes "get_currency_balance mgr (symbol c) = Inr balance" and "balance \<le> 0"
  shows "execute_stop_loss cfg mgr c s =
           (Inr False, logger INFO ''No balance to sell for stop loss'' s)"
  using assms by (simp add: execute_stop_loss_def execute_stop_loss_body_def)

lemma execute_stop_loss_too_small:
  assumes "get_currency_balance mgr (symbol c) = Inr balance" and "\<not> balance \<le> 0"
    and "get_ticker_price mgr (ticker c (BRIDGE cfg)) = Inr (Some current_price)"
    and "get_min_notional mgr (symbol c) (symbol (BRIDGE cfg)) = Inr min_notional"
    and "fmul balance current_price < min_notional"
  shows "execute_stop_loss cfg mgr c s =
           (Inr False, logger INFO ''Balance too small for stop loss trade'' s)"
  using assms by (simp add: execute_stop_loss_def execute_stop_loss_body_def)

text \<open>
  C8. When the held balance is 0 or less, or the balance times the current price is
  below the minimum notional, \<open>_execute_stop_loss\<close> issues no order, leaves the
  holding pointer alone, logs one line at level info and returns \<open>False\<close> without
  raising; and the scouting cycle in which the stop-loss tripped goes on to
  \<open>_jump_to_best_coin\<close> with the held coin and its price.
\<close>

theorem nothing_to_liquidate:
  assumes "get_currency_balance mgr (symbol c) = Inr balance"
    and "balance \<le> 0 \<or>
         (get_ticker_price mgr (ticker c (BRIDGE cfg)) = Inr (Some current_price) \<and>
          get_min_notional mgr (symbol c) (symbol (BRIDGE cfg)) = Inr min_notional \<and>
          fmul balance current_price < min_notional)"
  shows "\<exists>msg. execute_stop_loss cfg mgr c s = (Inr False, logger INFO msg s) \<and>
           exchange_calls (logger INFO msg s) = exchange_calls s \<and>
           current_coin_rows (logger INFO msg s) = current_coin_rows s \<and>
           (\<forall>s0 p current_time recent_high.
              get_current_coin s0 = Some c \<and> symbol c \<noteq> ''USDT'' \<and>
              get_ticker_price mgr (ticker c (BRIDGE cfg)) = Inr (Some p) \<and>
              STOP_LOSS_ENABLED cfg \<and>
              get_recent_high_price cfg mgr c current_time s0 = (Inr (Some recent_high), s) \<and>
              recent_high \<noteq> 0 \<and>
              fmul (fdiv (fsub recent_high p) recent_high) 100 \<ge> STOP_LOSS_PERCENTAGE cfg \<longrightarrow>
              scout cfg mgr trd current_time s0 = jump_to_best_coin trd c p (logger INFO msg s))"
proof -
  have "\<exists>msg. execute_stop_loss cfg mgr c s = (Inr False, logger INFO msg s)"
  proof (cases "balance \<le> 0")
    case True
    with assms(1) show ?thesis by (blast intro: execute_stop_loss_no_balance)
  next
    case False
    with assms show ?thesis by (blast intro: execute_stop_loss_too_small)
  qed
  then obtain msg where ex: "execute_stop_loss cfg mgr c s = (Inr False, logger INFO msg s)"
    by blast
  have frame: "exchange_calls (logger INFO msg s) = exchange_calls s"
    "current_coin_rows (logger INFO msg s) = current_coin_rows s"
    by (simp_all add: logger_def)
  have "scout cfg mgr trd current_time s0 = jump_to_best_coin trd c p (logger INFO msg s)"
    if "get_current_coin s0 = Some c" "symbol c \<noteq> ''USDT''"
      "get_ticker_price mgr (ticker c (BRIDGE cfg)) = Inr (Some p)"
      "STOP_LOSS_ENABLED cfg"
      "get_recent_high_price cfg mgr c current_time s0 = (Inr (Some recent_high), s)"
      "recent_high \<noteq> 0"
      "fmul (fdiv (fsub recent_high p) recent_high) 100 \<ge> STOP_LOSS_PERCENTAGE cfg"
    for s0 p current_time recent_high
    using that ex by (simp add: scout_def check_trailing_stop_loss_def Let_def)
  with ex frame show ?thesis by blast
qed

lemma hot_recent_high_no_balance:
  "get_recent_high_price ex_config no_balance_manager ETH None hot_state
     = (Inr (Some 100), hot_state)"
  by (rule hot_recent_high)

theorem nothing_to_liquidate_witness:
  "get_currency_balance no_balance_manager (symbol ETH) = Inr 0 \<and> (0::real) \<le> 0 \<and>
   execute_stop_loss ex_config no_balance_manager ETH hot_state =
     (Inr False, logger INFO ''No balance to sell for stop loss'' hot_state) \<and>
   get_current_coin hot_state = Some ETH \<and> symbol ETH \<noteq> ''USDT'' \<and>
   get_ticker_price no_balance_manager (ticker ETH (BRIDGE ex_config)) = Inr (Some 80) \<and>
   STOP_LOSS_ENABLED ex_config \<and>
   get_recent_high_price ex_config no_balance_manager ETH None hot_state
     = (Inr (Some 100), hot_state) \<and>
   fmul (fdiv (fsub 100 80) 100) 100 \<ge> STOP_LOSS_PERCENTAGE ex_config \<and>
   scout ex_config no_balance_manager ex_trader None hot_state =
     jump_to_best_coin ex_trader ETH 80
       (logger INFO ''No balance to sell for stop loss'' hot_state) \<and>
   exchange_calls (snd (scout ex_config no_balance_manager ex_trader None hot_state)) = [] \<and>
   get_currency_balance dust_manager (symbol ETH) = Inr dust_balance \<and>
   get_ticker_price dust_manager (ticker ETH (BRIDGE ex_config)) = Inr (Some 80) \<and>
   get_min_notional dust_manager (symbol ETH) (symbol (BRIDGE ex_config)) = Inr 10 \<and>
   fmul dust_balance 80 < 10 \<and>
   fst (execute_stop_loss ex_config dust_manager ETH hot_state) = Inr False \<and>
   exchange_calls (snd (execute_stop_loss ex_config dust_manager ETH hot_state)) = []"
proof -
  have dbal: "get_currency_balance dust_manager (symbol ETH) = Inr dust_balance"
    and dtick: "get_ticker_price dust_manager (ticker ETH (BRIDGE ex_config)) = Inr (Some 80)"
    and dmin: "get_min_notional dust_manager (symbol ETH) (symbol (BRIDGE ex_config)) = Inr 10"
    by (simp_all add: dust_manager_def sl_manager_def ticker_def ex_defs)
  have small: "fmul dust_balance 80 < 10" by (simp add: dust_value)
  have dhyp: "dust_balance \<le> 0 \<or>
         (get_ticker_price dust_manager (ticker ETH (BRIDGE ex_config)) = Inr (Some 80) \<and>
          get_min_notional dust_manager (symbol ETH) (symbol (BRIDGE ex_config)) = Inr 10 \<and>
          fmul dust_balance 80 < 10)"
    using dtick dmin small by blast
  from nothing_to_liquidate[OF dbal dhyp, where s = hot_state and trd = ex_trader]
  obtain dmsg where
    "execute_stop_loss ex_config dust_manager ETH hot_state
       = (Inr False, logger INFO dmsg hot_state)"
    and "exchange_calls (logger INFO dmsg hot_state) = exchange_calls hot_state"
    by blast
  then have dust: "fst (execute_stop_loss ex_config dust_manager ETH hot_state) = Inr False"
    "exchange_calls (snd (execute_stop_loss ex_config dust_manager ETH hot_state)) = []"
    by (simp_all add: hot_state_def ex_state_def)
  have bal: "get_currency_balance no_balance_manager (symbol ETH) = Inr 0"
    by (simp add: no_balance_manager_def)
  have cur: "get_current_coin hot_state = Some ETH"
    by (simp add: get_current_coin_def hot_state_def ex_state_def)
  have sym: "symbol ETH \<noteq> ''USDT''" by (simp add: ETH_def)
  have tick: "get_ticker_price no_balance_manager (ticker ETH (BRIDGE ex_config)) = Inr (Some 80)"
    by (simp add: no_balance_manager_def sl_manager_def ticker_def ex_defs)
  have en: "STOP_LOSS_ENABLED ex_config" and pct: "STOP_LOSS_PERCENTAGE ex_config = 15"
    by (simp_all add: ex_config_def)
  from nothing_to_liquidate[OF bal, where cfg = ex_config and s = hot_state and trd = ex_trader]
  obtain msg where
    ex: "execute_stop_loss ex_config no_balance_manager ETH hot_state
           = (Inr False, logger INFO msg hot_state)"
    and cont: "\<And>s0 p current_time recent_high.
              get_current_coin s0 = Some ETH \<and> symbol ETH \<noteq> ''USDT'' \<and>
              get_ticker_price no_balance_manager (ticker ETH (BRIDGE ex_config)) = Inr (Some p) \<and>
              STOP_LOSS_ENABLED ex_config \<and>
              get_recent_high_price ex_config no_balance_manager ETH current_time s0
                = (Inr (Some recent_high), hot_state) \<and>
              recent_high \<noteq> 0 \<and>
              fmul (fdiv (fsub recent_high p) recent_high) 100 \<ge> STOP_LOSS_PERCENTAGE ex_config \<Longrightarrow>
              scout ex_config no_balance_manager ex_trader current_time s0
                = jump_to_best_coin ex_trader ETH p (logger INFO msg hot_state)"
    by auto
  have ex': "execute_stop_loss ex_config no_balance_manager ETH hot_state =
     (Inr False, logger INFO ''No balance to sell for stop loss'' hot_state)"
    using bal by (simp add: execute_stop_loss_no_balance)
  from ex ex' have msg: "logger INFO msg hot_state
                          = logger INFO ''No balance to sell for stop loss'' hot_state"
    by simp
  have sc: "scout ex_config no_balance_manager ex_trader None hot_state =
     jump_to_best_coin ex_trader ETH 80
       (logger INFO ''No balance to sell for stop loss'' hot_state)"
    using cont[of hot_state 80 None 100] cur sym tick en pct hot_recent_high_no_balance
    by (simp add: msg drop_80)
  have calls: "exchange_calls (snd (scout ex_config no_balance_manager ex_trader None hot_state))
                 = []"
    unfolding sc by (simp add: ex_trader_def logger_def hot_state_def ex_state_def)
  from bal ex' cur sym tick en hot_recent_high_no_balance pct sc calls dbal dtick dmin dust
    small
  show ?thesis by (simp add: drop_80)
qed

section \<open>Properties of scouting from USDT\<close>

lemma evaluate_coin_frame:
  assumes "evaluate_coin cfg mgr trd c bp s = (r, s1)"
  shows "current_coin_rows s1 = current_coin_rows s \<and> exchange_calls s1 = exchange_calls s \<and>
         set (log s) \<subseteq> set (log s1) \<and> coins s1 = coins s"
  using assms
  by (auto simp: evaluate_coin_def Let_def split: sum.splits option.splits prod.splits if_splits)

lemma evaluate_coin_result:
  assumes "evaluate_coin cfg mgr trd c bp s = (r, s1)"
  shows "(case r of
            Inl e \<Rightarrow> avg_potential cfg mgr trd c = Inl e
          | Inr None \<Rightarrow>
              avg_potential cfg mgr trd c = Inr None \<or>
              (\<exists>v. avg_potential cfg mgr trd c = Inr (Some v) \<and> v \<le> bp)
          | Inr (Some avg) \<Rightarrow> avg_potential cfg mgr trd c = Inr (Some avg) \<and> bp < avg)"
  using assms
  by (auto simp: evaluate_coin_def avg_potential_def Let_def
      split: sum.splits option.splits prod.splits if_splits)

lemma evaluate_coins_Cons:
  assumes "evaluate_coins cfg mgr trd (c # cs) bc bp s = (res, s')"
  obtains (raised) e s1 where "evaluate_coin cfg mgr trd c bp s = (Inl e, s1)"
      "avg_potential cfg mgr trd c = Inl e"
      "evaluate_coins cfg mgr trd cs bc bp
         (logger DEBUG (''Error evaluating coin '' @ symbol c) s1) = (res, s')"
    | (kept) s1 where "evaluate_coin cfg mgr trd c bp s = (Inr None, s1)"
      "avg_potential cfg mgr trd c = Inr None \<or>
       (\<exists>v. avg_potential cfg mgr trd c = Inr (Some v) \<and> v \<le> bp)"
      "evaluate_coins cfg mgr trd cs bc bp s1 = (res, s')"
    | (better) avg s1 where "evaluate_coin cfg mgr trd c bp s = (Inr (Some avg), s1)"
      "avg_potential cfg mgr trd c = Inr (Some avg)" "bp < avg"
      "evaluate_coins cfg mgr trd cs (Some c) avg s1 = (res, s')"
proof -
  obtain r s1 where step: "evaluate_coin cfg mgr trd c bp s = (r, s1)"
    by (cases "evaluate_coin cfg mgr trd c bp s")
  note res = evaluate_coin_result[OF step]
  show thesis
  proof (cases r)
    case (Inl e)
    with step assms res raised show ?thesis by simp
  next
    case (Inr o1)
    show ?thesis
    proof (cases o1)
      case None
      with Inr step assms res kept show ?thesis by simp
    next
      case (Some avg)
      with Inr step assms res better show ?thesis by simp
    qed
  qed
qed

lemma evaluate_coins_frame:
  assumes "evaluate_coins cfg mgr trd cs bc bp s = (res, s')"
  shows "current_coin_rows s' = current_coin_rows s \<and> exchange_calls s' = exchange_calls s \<and>
         set (log s) \<subseteq> set (log s')"
  using assms
proof (induction cs arbitrary: bc bp s)
  case Nil
  then show ?case by simp
next
  case (Cons c cs)
  from Cons.prems show ?case
  proof (cases rule: evaluate_coins_Cons)
    case (raised e s1)
    from Cons.IH[OF raised(3)] evaluate_coin_frame[OF raised(1)] show ?thesis
      by (simp add: logger_def subset_iff)
  next
    case (kept s1)
    from Cons.IH[OF kept(3)] evaluate_coin_frame[OF kept(1)] show ?thesis
      by (simp add: subset_iff)
  next
    case (better avg s1)
    from Cons.IH[OF better(4)] evaluate_coin_frame[OF better(1)] show ?thesis
      by (simp add: subset_iff)
  qed
qed

lemma evaluate_coins_choice:
  assumes "evaluate_coins cfg mgr trd cs bc bp s = ((bc', bp'), s')"
  shows "bp \<le> bp' \<and>
         ((bc' = bc \<and> bp' = bp) \<or>
          (\<exists>c\<in>set cs. bc' = Some c \<and> avg_potential cfg mgr trd c = Inr (Some bp') \<and> bp < bp'))"
  using assms
proof (induction cs arbitrary: bc bp s)
  case Nil
  then show ?case by simp
next
  case (Cons c cs)
  from Cons.prems show ?case
  proof (cases rule: evaluate_coins_Cons)
    case (raised e s1)
    from Cons.IH[OF raised(3)] show ?thesis by auto
  next
    case (kept s1)
    from Cons.IH[OF kept(3)] show ?thesis by auto
  next
    case (better avg s1)
    from Cons.IH[OF better(4)] have "avg \<le> bp'"
      and alt: "(bc' = Some c \<and> bp' = avg) \<or>
          (\<exists>d\<in>set cs. bc' = Some d \<and> avg_potential cfg mgr trd d = Inr (Some bp') \<and> avg < bp')"
      by auto
    with better(2,3) show ?thesis by fastforce
  qed
qed

lemma evaluate_coins_bound:
  assumes "evaluate_coins cfg mgr trd cs bc bp s = ((bc', bp'), s')"
    and "c \<in> set cs" and "avg_potential cfg mgr trd c = Inr (Some w)"
  shows "w \<le> bp'"
  using assms
proof (induction cs arbitrary: bc bp s)
  case Nil
  then show ?case by simp
next
  case (Cons d cs)
  from Cons.prems(1) show ?case
  proof (cases rule: evaluate_coins_Cons)
    case (raised e s1)
    with Cons.prems(2,3) have "c \<in> set cs" by auto
    from Cons.IH[OF raised(3) this Cons.prems(3)] show ?thesis .
  next
    case (kept s1)
    show ?thesis
    proof (cases "c = d")
      case True
      with kept(2) Cons.prems(3) have "w \<le> bp" by auto
      with evaluate_coins_choice[OF kept(3)] show ?thesis by simp
    next
      case False
      with Cons.prems(2) have "c \<in> set cs" by simp
      from Cons.IH[OF kept(3) this Cons.prems(3)] show ?thesis .
    qed
  next
    case (better avg s1)
    show ?thesis
    proof (cases "c = d")
      case True
      with better(2) Cons.prems(3) have "w = avg" by simp
      with evaluate_coins_choice[OF better(4)] show ?thesis by simp
    next
      case False
      with Cons.prems(2) have "c \<in> set cs" by simp
      from Cons.IH[OF better(4) this Cons.prems(3)] show ?thesis .
    qed
  qed
qed

lemma evaluate_coins_logged:
  assumes "evaluate_coins cfg mgr trd cs bc bp s = (res, s')"
    and "c \<in> set cs" and "avg_potential cfg mgr trd c = Inl e"
  shows "(DEBUG, ''Error evaluating coin '' @ symbol c) \<in> set (log s')"
  using assms
proof (induction cs arbitrary: bc bp s)
  case Nil
  then show ?case by simp
next
  case (Cons d cs)
  from Cons.prems(1) show ?case
  proof (cases rule: evaluate_coins_Cons)
    case (raised e1 s1)
    show ?thesis
    proof (cases "c = d")
      case True
      have "(DEBUG, ''Error evaluating coin '' @ symbol d)
              \<in> set (log (logger DEBUG (''Error evaluating coin '' @ symbol d) s1))"
        by (simp add: logger_def)
      with evaluate_coins_frame[OF raised(3)] True show ?thesis by blast
    next
      case False
      with Cons.prems(2) have "c \<in> set cs" by simp
      from Cons.IH[OF raised(3) this Cons.prems(3)] show ?thesis .
    qed
  next
    case (kept s1)
    with Cons.prems(2,3) have "c \<in> set cs" by auto
    from Cons.IH[OF kept(3) this Cons.prems(3)] show ?thesis .
  next
    case (better avg s1)
    with Cons.prems(2,3) have "c \<in> set cs" by auto
    from Cons.IH[OF better(4) this Cons.prems(3)] show ?thesis .
  qed
qed

lemma scout_from_usdt_body_cases:
  obtains (no_targets) "target_coins s = []"
      "scout_from_usdt_body cfg mgr trd s =
         (Inr (), logger WARNING ''No target coins available for USDT trading'' s)"
    | (no_best) bc bp s1 where "target_coins s \<noteq> []"
      "evaluate_coins cfg mgr trd (target_coins s) None 0 s = ((bc, bp), s1)"
      "bc = None \<or> \<not> 0 < bp"
      "scout_from_usdt_body cfg mgr trd s = (Inr (), s1)"
    | (buy) c bp s1 where "target_coins s \<noteq> []"
      "evaluate_coins cfg mgr trd (target_coins s) None 0 s = ((Some c, bp), s1)" "0 < bp"
      "scout_from_usdt_body cfg mgr trd s =
         (case buy_alt mgr c (BRIDGE cfg) of
            Inl e \<Rightarrow> (Inl e, issue (BuyAlt (symbol c) (symbol (BRIDGE cfg)))
                              (logger INFO (''USDT -> '' @ symbol c) s1))
          | Inr None \<Rightarrow>
              (Inr (), logger WARNING (''Failed to buy '' @ symbol c @ '' from USDT'')
                         (issue (BuyAlt (symbol c) (symbol (BRIDGE cfg)))
                            (logger INFO (''USDT -> '' @ symbol c) s1)))
          | Inr (Some bought) \<Rightarrow>
              (Inr (), logger INFO (''Successfully bought '' @ symbol c @ '' from USDT'')
                         (set_current_coin c
                            (issue (BuyAlt (symbol c) (symbol (BRIDGE cfg)))
                               (logger INFO (''USDT -> '' @ symbol c) s1)))))"
proof (cases "target_coins s = []")
  case True
  with no_targets show ?thesis
    by (simp add: scout_from_usdt_body_def target_coins_def Let_def)
next
  case False
  obtain bc bp s1 where
    ev: "evaluate_coins cfg mgr trd (target_coins s) None 0 s = ((bc, bp), s1)"
    by (metis surj_pair)
  show ?thesis
  proof (cases "bc = None \<or> \<not> 0 < bp")
    case True
    have "scout_from_usdt_body cfg mgr trd s = (Inr (), s1)"
      using False ev True
      by (auto simp: scout_from_usdt_body_def target_coins_def Let_def split: option.splits)
    with no_best False ev True show ?thesis by blast
  next
    case nb: False
    then obtain c where c: "bc = Some c" and pos: "0 < bp" by auto
    show ?thesis
      by (rule buy[OF False ev[unfolded c] pos])
         (use False ev c pos in
           \<open>simp add: scout_from_usdt_body_def target_coins_def Let_def
              split: sum.splits option.splits\<close>)
  qed
qed

lemma scout_from_usdt_holding:
  assumes "scout_from_usdt cfg mgr trd s = (r, s')"
  shows "current_coin_rows s' = current_coin_rows s \<or>
         (\<exists>c\<in>set (target_coins s). \<exists>v bought.
             avg_potential cfg mgr trd c = Inr (Some v) \<and> 0 < v \<and>
             (\<forall>d\<in>set (target_coins s). \<forall>w.
                 avg_potential cfg mgr trd d = Inr (Some w) \<longrightarrow> w \<le> v) \<and>
             buy_alt mgr c (BRIDGE cfg) = Inr (Some bought) \<and>
             current_coin_rows s' = current_coin_rows s @ [c] \<and>
             exchange_calls s' = exchange_calls s @ [BuyAlt (symbol c) (symbol (BRIDGE cfg))])"
proof (cases rule: scout_from_usdt_body_cases[of s cfg mgr trd])
  case no_targets
  with assms show ?thesis by (auto simp: scout_from_usdt_def logger_def)
next
  case (no_best bc bp s1)
  with assms evaluate_coins_frame[OF no_best(2)] show ?thesis
    by (auto simp: scout_from_usdt_def)
next
  case (buy c bp s1)
  note fr = evaluate_coins_frame[OF buy(2)]
  from evaluate_coins_choice[OF buy(2)] buy(3)
  have c: "c \<in> set (target_coins s)" and pot: "avg_potential cfg mgr trd c = Inr (Some bp)"
    by auto
  have best: "\<forall>d\<in>set (target_coins s). \<forall>w.
                 avg_potential cfg mgr trd d = Inr (Some w) \<longrightarrow> w \<le> bp"
    using evaluate_coins_bound[OF buy(2)] by blast
  show ?thesis
  proof (cases "buy_alt mgr c (BRIDGE cfg)")
    case (Inl e)
    with assms buy(4) have "s' = logger ERROR ''Error in USDT scouting''
        (issue (BuyAlt (symbol c) (symbol (BRIDGE cfg))) (logger INFO (''USDT -> '' @ symbol c) s1))"
      by (simp add: scout_from_usdt_def)
    with fr show ?thesis by (simp add: logger_def issue_def)
  next
    case (Inr o1)
    show ?thesis
    proof (cases o1)
      case None
      with Inr assms buy(4) have "s' = logger WARNING (''Failed to buy '' @ symbol c @ '' from USDT'')
        (issue (BuyAlt (symbol c) (symbol (BRIDGE cfg))) (logger INFO (''USDT -> '' @ symbol c) s1))"
        by (simp add: scout_from_usdt_def)
      with fr show ?thesis by (simp add: logger_def issue_def)
    next
      case (Some bought)
      with Inr assms buy(4) fr
      have "current_coin_rows s' = current_coin_rows s @ [c]"
        "exchange_calls s' = exchange_calls s @ [BuyAlt (symbol c) (symbol (BRIDGE cfg))]"
        by (auto simp: scout_from_usdt_def logger_def issue_def set_current_coin_def)
      with c pot buy(3) best Inr Some show ?thesis by blast
    qed
  qed
qed

lemma scout_from_usdt_log_mono:
  assumes "scout_from_usdt cfg mgr trd s = (r, s')"
    and "evaluate_coins cfg mgr trd (target_coins s) None 0 s = (res, s1)"
    and "target_coins s \<noteq> []"
  shows "set (log s1) \<subseteq> set (log s')"
proof (cases rule: scout_from_usdt_body_cases[of s cfg mgr trd])
  case no_targets
  with assms(3) show ?thesis by simp
next
  case (no_best bc bp s2)
  with assms show ?thesis by (auto simp: scout_from_usdt_def)
next
  case (buy c bp s2)
  with assms(2) have "s2 = s1" by simp
  with assms(1) buy(4) show ?thesis
    by (auto simp: scout_from_usdt_def logger_def issue_def set_current_coin_def
        split: sum.splits option.splits)
qed

text \<open>
  C9. \<open>_scout_from_usdt\<close> always returns normally: an exception raised while one coin
  is evaluated is logged at level debug and the coin is skipped; an exception raised
  anywhere else in the body is logged at level error and leaves the holding pointer
  as it was. The holding pointer changes only by one row, the coin whose average of
  positive ratios is positive and the highest among the target coins, and only when
  \<open>buy_alt\<close> for that coin returned an order.
\<close>

theorem scout_from_usdt_contained:
  assumes "scout_from_usdt cfg mgr trd s = (r, s')"
  shows "r = Inr () \<and>
         (current_coin_rows s' = current_coin_rows s \<or>
          (\<exists>c\<in>set (target_coins s). \<exists>v bought.
              avg_potential cfg mgr trd c = Inr (Some v) \<and> 0 < v \<and>
              (\<forall>d\<in>set (target_coins s). \<forall>w.
                  avg_potential cfg mgr trd d = Inr (Some w) \<longrightarrow> w \<le> v) \<and>
              buy_alt mgr c (BRIDGE cfg) = Inr (Some bought) \<and>
              current_coin_rows s' = current_coin_rows s @ [c] \<and>
              exchange_calls s' = exchange_calls s @ [BuyAlt (symbol c) (symbol (BRIDGE cfg))])) \<and>
         (\<forall>c\<in>set (target_coins s). \<forall>e.
             avg_potential cfg mgr trd c = Inl e \<longrightarrow>
             (DEBUG, ''Error evaluating coin '' @ symbol c) \<in> set (log s')) \<and>
         (\<forall>e s1. scout_from_usdt_body cfg mgr trd s = (Inl e, s1) \<longrightarrow>
             s' = logger ERROR ''Error in USDT scouting'' s1 \<and>
             current_coin_rows s' = current_coin_rows s)"
proof (intro conjI ballI allI impI)
  show "r = Inr ()"
    using assms by (auto simp: scout_from_usdt_def split: prod.splits sum.splits)
next
  show "current_coin_rows s' = current_coin_rows s \<or>
          (\<exists>c\<in>set (target_coins s). \<exists>v bought.
              avg_potential cfg mgr trd c = Inr (Some v) \<and> 0 < v \<and>
              (\<forall>d\<in>set (target_coins s). \<forall>w.
                  avg_potential cfg mgr trd d = Inr (Some w) \<longrightarrow> w \<le> v) \<and>
              buy_alt mgr c (BRIDGE cfg) = Inr (Some bought) \<and>
              current_coin_rows s' = current_coin_rows s @ [c] \<and>
              exchange_calls s' = exchange_calls s @ [BuyAlt (symbol c) (symbol (BRIDGE cfg))])"
    by (rule scout_from_usdt_holding[OF assms])
next
  fix c e
  assume c: "c \<in> set (target_coins s)" and pot: "avg_potential cfg mgr trd c = Inl e"
  obtain res s1 where ev: "evaluate_coins cfg mgr trd (target_coins s) None 0 s = (res, s1)"
    by (metis surj_pair)
  from c have ne: "target_coins s \<noteq> []" by auto
  from evaluate_coins_logged[OF ev c pot] scout_from_usdt_log_mono[OF assms ev ne]
  show "(DEBUG, ''Error evaluating coin '' @ symbol c) \<in> set (log s')" by blast
next
  fix e s1
  assume body: "scout_from_usdt_body cfg mgr trd s = (Inl e, s1)"
  with assms show "s' = logger ERROR ''Error in USDT scouting'' s1"
    by (simp add: scout_from_usdt_def)
  with scout_from_usdt_holding[OF assms] body
  show "current_coin_rows s' = current_coin_rows s"
  proof (cases rule: scout_from_usdt_body_cases[of s cfg mgr trd])
    case no_targets
    with body show ?thesis by simp
  next
    case (no_best bc bp s2)
    with body show ?thesis by simp
  next
    case (buy c bp s2)
    with body \<open>s' = logger ERROR ''Error in USDT scouting'' s1\<close>
      evaluate_coins_frame[OF buy(2)]
    show ?thesis
      by (auto simp: logger_def issue_def split: sum.splits option.splits)
  qed
qed

lemma ex_targets: "target_coins usdt_state = [ETH, BTC]"
  by (simp add: target_coins_def get_coins_def usdt_state_def ex_defs)

lemma ex_average:
  "fadd 0 (1 / 8) = 1 / 8" "fadd (1 / 8) (3 / 8) = 1 / 2" "fdiv (1 / 2) 2 = 1 / 4"
  by code_simp+

lemma ex_potentials:
  "avg_potential ex_config ex_manager scout_trader ETH = Inl (OtherException ''no pairs'')"
  "avg_potential ex_config ex_manager scout_trader BTC = Inr (Some (1 / 4))"
  by (simp_all add: avg_potential_def scout_trader_def ex_trader_def ticker_def ex_defs
      py_sum_def ex_average)

lemma ex_scout_from_usdt:
  "scout_from_usdt ex_config ex_manager scout_trader usdt_state =
     (Inr (),
      logger INFO ''Successfully bought BTC from USDT''
        (set_current_coin BTC
           (issue (BuyAlt ''BTC'' ''USDT'')
              (logger INFO ''USDT -> BTC''
                 (logger DEBUG ''Error evaluating coin ETH'' usdt_state)))))"
  by (simp add: scout_from_usdt_def scout_from_usdt_body_def evaluate_coin_def get_coins_def
      scout_trader_def ex_trader_def usdt_state_def ticker_def logger_def issue_def
      set_current_coin_def ex_defs Let_def py_sum_def ex_average)

lemma ex_scout_from_usdt_raising:
  "scout_from_usdt_body ex_config raising_buy_manager scout_trader usdt_state =
     (Inl (OtherException ''timeout''),
      issue (BuyAlt ''BTC'' ''USDT'')
        (logger INFO ''USDT -> BTC''
           (logger DEBUG ''Error evaluating coin ETH'' usdt_state)))"
  by (simp add: scout_from_usdt_body_def evaluate_coin_def get_coins_def
      scout_trader_def ex_trader_def usdt_state_def raising_buy_manager_def ticker_def
      logger_def issue_def ex_defs Let_def py_sum_def ex_average)

theorem scout_from_usdt_contained_witness:
  "(\<exists>s'. scout_from_usdt ex_config ex_manager scout_trader usdt_state = (Inr (), s') \<and>
         ETH \<in> set (target_coins usdt_state) \<and>
         avg_potential ex_config ex_manager scout_trader ETH = Inl (OtherException ''no pairs'') \<and>
         (DEBUG, ''Error evaluating coin ETH'') \<in> set (log s') \<and>
         BTC \<in> set (target_coins usdt_state) \<and>
         avg_potential ex_config ex_manager scout_trader BTC = Inr (Some (1 / 4)) \<and>
         buy_alt ex_manager BTC (BRIDGE ex_config) = Inr (Some \<lparr>price = 40000\<rparr>) \<and>
         current_coin_rows s' = current_coin_rows usdt_state @ [BTC] \<and>
         exchange_calls s' = [BuyAlt ''BTC'' ''USDT'']) \<and>
   (\<exists>e s1 s'. scout_from_usdt_body ex_config raising_buy_manager scout_trader usdt_state
                 = (Inl e, s1) \<and>
         scout_from_usdt ex_config raising_buy_manager scout_trader usdt_state = (Inr (), s') \<and>
         s' = logger ERROR ''Error in USDT scouting'' s1 \<and>
         current_coin_rows s' = current_coin_rows usdt_state)"
proof -
  obtain r s' where run: "scout_from_usdt ex_config ex_manager scout_trader usdt_state = (r, s')"
    by (metis surj_pair)
  note facts = scout_from_usdt_contained[OF run]
  from facts have r: "r = Inr ()" by blast
  have eth: "ETH \<in> set (target_coins usdt_state)" and btc: "BTC \<in> set (target_coins usdt_state)"
    by (simp_all add: ex_targets)
  from facts eth ex_potentials(1)
  have dbg: "(DEBUG, ''Error evaluating coin ETH'') \<in> set (log s')"
    by (auto simp: ETH_def)
  have buy: "buy_alt ex_manager BTC (BRIDGE ex_config) = Inr (Some \<lparr>price = 40000\<rparr>)"
    by (simp add: ex_manager_def)
  from run ex_scout_from_usdt
  have rows: "current_coin_rows s' = current_coin_rows usdt_state @ [BTC]"
    and calls: "exchange_calls s' = [BuyAlt ''BTC'' ''USDT'']"
    by (auto simp: logger_def issue_def set_current_coin_def usdt_state_def ex_state_def)
  obtain r2 s2 where
    run2: "scout_from_usdt ex_config raising_buy_manager scout_trader usdt_state = (r2, s2)"
    by (metis surj_pair)
  note facts2 = scout_from_usdt_contained[OF run2]
  from facts2 have r2: "r2 = Inr ()" by blast
  from facts2 ex_scout_from_usdt_raising
  have caught: "s2 = logger ERROR ''Error in USDT scouting''
                  (issue (BuyAlt ''BTC'' ''USDT'')
                     (logger INFO ''USDT -> BTC''
                        (logger DEBUG ''Error evaluating coin ETH'' usdt_state)))"
    and same: "current_coin_rows s2 = current_coin_rows usdt_state"
    by blast+
  from run r eth ex_potentials dbg btc buy rows calls
  have first: "\<exists>s'. scout_from_usdt ex_config ex_manager scout_trader usdt_state = (Inr (), s') \<and>
         ETH \<in> set (target_coins usdt_state) \<and>
         avg_potential ex_config ex_manager scout_trader ETH = Inl (OtherException ''no pairs'') \<and>
         (DEBUG, ''Error evaluating coin ETH'') \<in> set (log s') \<and>
         BTC \<in> set (target_coins usdt_state) \<and>
         avg_potential ex_config ex_manager scout_trader BTC = Inr (Some (1 / 4)) \<and>
         buy_alt ex_manager BTC (BRIDGE ex_config) = Inr (Some \<lparr>price = 40000\<rparr>) \<and>
         current_coin_rows s' = current_coin_rows usdt_state @ [BTC] \<and>
         exchange_calls s' = [BuyAlt ''BTC'' ''USDT'']"
    by blast
  from run2 r2 caught same ex_scout_from_usdt_raising
  have second: "\<exists>e s1 s'. scout_from_usdt_body ex_config raising_buy_manager scout_trader usdt_state
                 = (Inl e, s1) \<and>
         scout_from_usdt ex_config raising_buy_manager scout_trader usdt_state = (Inr (), s') \<and>
         s' = logger ERROR ''Error in USDT scouting'' s1 \<and>
         current_coin_rows s' = current_coin_rows usdt_state"
    by blast
  from first second show ?thesis by blast
qed

end
